theory Spec2Isabelle
  imports Complex_Main
begin

section \<open>JavaScript strings\<close>

text \<open>
  The proxy is TypeScript on Deno. Strings are modelled as \<^typ>\<open>string\<close>, read as the
  UTF-8 bytes of the JavaScript string: every string operation the code uses (concatenation,
  comparison, \<open>substring(7)\<close> behind an ASCII prefix, \<open>join\<close>, \<open>trim\<close>) acts on whole
  characters, so it commutes with the encoding. A value is truthy in the sense of
  JavaScript's \<open>if (s)\<close>: a string is truthy when it is not empty, and \<open>null\<close> or
  \<open>undefined\<close> (here \<open>None\<close>) never is.
\<close>

definition truthy :: "string \<Rightarrow> bool" where
  "truthy s = (s \<noteq> [])"

fun truthy_opt :: "string option \<Rightarrow> bool" where
  "truthy_opt None = False"
| "truthy_opt (Some s) = truthy s"

text \<open>\<open>Array.prototype.join\<close> on an array of strings.\<close>

fun join :: "string \<Rightarrow> string list \<Rightarrow> string" where
  "join sep [] = []"
| "join sep [x] = x"
| "join sep (x # y # ys) = x @ sep @ join sep (y # ys)"

text \<open>
  \<open>String.prototype.trim\<close> removes the ECMAScript white space and line terminators from
  both ends: TAB, LF, VT, FF, CR, SP, and in UTF-8 the sequences of U+00A0, U+1680,
  U+2000 to U+200A, U+2028, U+2029, U+202F, U+205F, U+3000 and U+FEFF.
\<close>

definition js_whitespace :: "string list" where
  "js_whitespace =
    [[CHR 0x09], [CHR 0x0A], [CHR 0x0B], [CHR 0x0C], [CHR 0x0D], [CHR 0x20],
     [CHR 0xC2, CHR 0xA0], [CHR 0xE1, CHR 0x9A, CHR 0x80],
     [CHR 0xE2, CHR 0x80, CHR 0x80], [CHR 0xE2, CHR 0x80, CHR 0x81],
     [CHR 0xE2, CHR 0x80, CHR 0x82], [CHR 0xE2, CHR 0x80, CHR 0x83],
     [CHR 0xE2, CHR 0x80, CHR 0x84], [CHR 0xE2, CHR 0x80, CHR 0x85],
     [CHR 0xE2, CHR 0x80, CHR 0x86], [CHR 0xE2, CHR 0x80, CHR 0x87],
     [CHR 0xE2, CHR 0x80, CHR 0x88], [CHR 0xE2, CHR 0x80, CHR 0x89],
     [CHR 0xE2, CHR 0x80, CHR 0x8A], [CHR 0xE2, CHR 0x80, CHR 0xA8],
     [CHR 0xE2, CHR 0x80, CHR 0xA9], [CHR 0xE2, CHR 0x80, CHR 0xAF],
     [CHR 0xE2, CHR 0x81, CHR 0x9F], [CHR 0xE3, CHR 0x80, CHR 0x80],
     [CHR 0xEF, CHR 0xBB, CHR 0xBF]]"

fun strip_leading :: "string list \<Rightarrow> string \<Rightarrow> string" where
  "strip_leading ws [] = []"
| "strip_leading ws (c # cs) =
     (case find (\<lambda>w. w \<noteq> [] \<and> take (length w) (c # cs) = w) ws of
        None \<Rightarrow> c # cs
      | Some w \<Rightarrow> strip_leading ws (drop (length w - 1) cs))"

definition trim :: "string \<Rightarrow> string" where
  "trim s = rev (strip_leading (map rev js_whitespace) (rev (strip_leading js_whitespace s)))"

section \<open>The request data model\<close>

text \<open>
  The types of \<open>types.ts\<close>, as the code uses them. A content item is
  \<open>{type, text?, image_url?: {url}}\<close>; a message's content is a string, an array of
  content items, or absent (\<open>null\<close>/\<open>undefined\<close>). A missing \<open>role\<close> behaves in every
  test of the code like the empty string, which stands for it.
\<close>

record image_ref =
  url :: string

record content_item =
  ctype :: string
  item_text :: "string option"
  image_url :: "image_ref option"

datatype message_content = Text string | Items "content_item list" | NoContent

record message =
  role :: string
  content :: message_content

text \<open>
  The request body: \<open>messages\<close> is \<open>None\<close> when the field is not an array, and
  \<open>stream\<close> holds \<open>requestBody.stream === true\<close>.
\<close>

record request_body =
  model_name :: "string option"
  messages :: "message list option"
  stream :: bool

record model_input =
  prompt :: string
  max_tokens :: int
  system_prompt :: string
  max_image_resolution :: real
  image_input :: "string option"

section \<open>message-processor.ts\<close>

text \<open>
  The anti-self-dialogue instruction of \<open>buildModelInput\<close>, byte for byte (UTF-8). The
  literal that \<open>formatMessagesToConversation\<close> appends is the same text between square
  brackets, followed by a newline.
\<close>

definition antiSelfDialoguePrompt :: string where
  "antiSelfDialoguePrompt =
    [
     CHR 0xE8, CHR 0xAF, CHR 0xB7, CHR 0xE7, CHR 0x9B, CHR 0xB4, CHR 0xE6, CHR 0x8E, CHR 0xA5, CHR 0xE5,
     CHR 0x9B, CHR 0x9E, CHR 0xE7, CHR 0xAD, CHR 0x94, CHR 0xE4, CHR 0xB8, CHR 0x8A, CHR 0xE8, CHR 0xBF,
     CHR 0xB0, CHR 0xE9, CHR 0x97, CHR 0xAE, CHR 0xE9, CHR 0xA2, CHR 0x98, CHR 0xEF, CHR 0xBC, CHR 0x8C,
     CHR 0xE6, CHR 0x8F, CHR 0x90, CHR 0xE4, CHR 0xBE, CHR 0x9B, CHR 0xE5, CHR 0xAE, CHR 0x8C, CHR 0xE6,
     CHR 0x95, CHR 0xB4, CHR 0xE8, CHR 0xAF, CHR 0xA6, CHR 0xE7, CHR 0xBB, CHR 0x86, CHR 0xE7, CHR 0x9A,
     CHR 0x84, CHR 0xE5, CHR 0x9B, CHR 0x9E, CHR 0xE7, CHR 0xAD, CHR 0x94, CHR 0xEF, CHR 0xBC, CHR 0x8C,
     CHR 0xE7, CHR 0x84, CHR 0xB6, CHR 0xE5, CHR 0x90, CHR 0x8E, CHR 0xE5, CHR 0x81, CHR 0x9C, CHR 0xE6,
     CHR 0xAD, CHR 0xA2, CHR 0xE3, CHR 0x80, CHR 0x82, CHR 0xE4, CHR 0xB8, CHR 0x8D, CHR 0xE8, CHR 0xA6,
     CHR 0x81, CHR 0xE4, CHR 0xBD, CHR 0xBF, CHR 0xE7, CHR 0x94, CHR 0xA8, CHR 0xE2, CHR 0x80, CHR 0x98,
     CHR 0x75, CHR 0x73, CHR 0x65, CHR 0x72, CHR 0xEF, CHR 0xBC, CHR 0x9A, CHR 0x78, CHR 0x78, CHR 0x78,
     CHR 0x78, CHR 0xE2, CHR 0x80, CHR 0x99, CHR 0xE6, CHR 0xA8, CHR 0xA1, CHR 0xE6, CHR 0x8B, CHR 0x9F,
     CHR 0xE7, CHR 0x94, CHR 0xA8, CHR 0xE6, CHR 0x88, CHR 0xB7, CHR 0xE6, CHR 0x8F, CHR 0x90, CHR 0xE9,
     CHR 0x97, CHR 0xAE, CHR 0xE3, CHR 0x80, CHR 0x82, CHR 0xE4, CHR 0xB8, CHR 0xA5, CHR 0xE7, CHR 0xA6,
     CHR 0x81, CHR 0xE7, CHR 0x94, CHR 0x9F, CHR 0xE6, CHR 0x88, CHR 0x90, CHR 0xE4, CHR 0xBB, CHR 0xBB,
     CHR 0xE4, CHR 0xBD, CHR 0x95, CHR 0xE5, CHR 0xBD, CHR 0xA2, CHR 0xE5, CHR 0xBC, CHR 0x8F, CHR 0xE7,
     CHR 0x9A, CHR 0x84, CHR 0x27, CHR 0x75, CHR 0x73, CHR 0x65, CHR 0x72, CHR 0x3A, CHR 0x27, CHR 0xE7,
     CHR 0xAD, CHR 0x89, CHR 0xE8, CHR 0xA7, CHR 0x92, CHR 0xE8, CHR 0x89, CHR 0xB2, CHR 0xE6, CHR 0xA0,
     CHR 0x87, CHR 0xE8, CHR 0xAE, CHR 0xB0, CHR 0xEF, CHR 0xBC, CHR 0x8C, CHR 0xE4, CHR 0xB8, CHR 0x8D,
     CHR 0xE8, CHR 0xA6, CHR 0x81, CHR 0xE6, CHR 0xA8, CHR 0xA1, CHR 0xE6, CHR 0x8B, CHR 0x9F, CHR 0xE4,
     CHR 0xB8, CHR 0x8A, CHR 0xE4, CHR 0xB8, CHR 0x8B, CHR 0xE6, CHR 0x96, CHR 0x87, CHR 0xE4, CHR 0xB8,
     CHR 0xAD, CHR 0xE7, CHR 0x9A, CHR 0x84, CHR 0xE2, CHR 0x80, CHR 0x98, CHR 0x75, CHR 0x73, CHR 0x65,
     CHR 0x72, CHR 0xEF, CHR 0xBC, CHR 0x9A, CHR 0x78, CHR 0x78, CHR 0x78, CHR 0x78, CHR 0xEF, CHR 0xBC,
     CHR 0x8C, CHR 0x61, CHR 0x73, CHR 0x73, CHR 0x69, CHR 0x73, CHR 0x74, CHR 0x61, CHR 0x6E, CHR 0x74,
     CHR 0xEF, CHR 0xBC, CHR 0x9A, CHR 0x78, CHR 0x78, CHR 0x78, CHR 0x78, CHR 0xE8, CHR 0xBF, CHR 0x99,
     CHR 0xE7, CHR 0xA7, CHR 0x8D, CHR 0xE5, CHR 0xAF, CHR 0xB9, CHR 0xE8, CHR 0xAF, CHR 0x9D, CHR 0xE6,
     CHR 0xA0, CHR 0xBC, CHR 0xE5, CHR 0xBC, CHR 0x8F, CHR 0xE2, CHR 0x80, CHR 0x99, CHR 0xEF, CHR 0xBC,
     CHR 0x8C, CHR 0xE5, CHR 0x8F, CHR 0xAA, CHR 0xE9, CHR 0x9C, CHR 0x80, CHR 0xE5, CHR 0x9B, CHR 0x9E,
     CHR 0xE7, CHR 0xAD, CHR 0x94, CHR 0xE7, CHR 0x94, CHR 0xA8, CHR 0xE6, CHR 0x88, CHR 0xB7, CHR 0xE6,
     CHR 0x8F, CHR 0x90, CHR 0xE5, CHR 0x87, CHR 0xBA, CHR 0xE7, CHR 0x9A, CHR 0x84, CHR 0xE9, CHR 0x97,
     CHR 0xAE, CHR 0xE9, CHR 0xA2, CHR 0x98, CHR 0xE5, CHR 0x8D, CHR 0xB3, CHR 0xE5, CHR 0x8F, CHR 0xAF,
     CHR 0xE3, CHR 0x80, CHR 0x82
    ]"

text \<open>
  \<open>extractSystemPrompt\<close>: the text of the system messages, a newline after each piece,
  trimmed; the system messages are removed from the working array (which is returned here,
  as the source mutates it in place).
\<close>

definition systemItemsText :: "content_item list \<Rightarrow> string" where
  "systemItemsText its =
     concat (map (\<lambda>item. if ctype item = ''text'' \<and> truthy_opt (item_text item)
                          then the (item_text item) @ ''\<newline>'' else []) its)"

fun systemMessageText :: "message_content \<Rightarrow> string" where
  "systemMessageText (Text s) = s @ ''\<newline>''"
| "systemMessageText (Items its) = systemItemsText its"
| "systemMessageText NoContent = []"

definition extractSystemPrompt :: "message list \<Rightarrow> string \<times> message list" where
  "extractSystemPrompt msgs =
     (let systemMessages = filter (\<lambda>msg. role msg = ''system'') msgs in
      if length systemMessages > 0
      then (trim (concat (map (\<lambda>sysMsg. systemMessageText (content sysMsg)) systemMessages)),
            filter (\<lambda>msg. role msg \<noteq> ''system'') msgs)
      else (trim [], msgs))"

text \<open>
  \<open>extractImageUrls\<close>: for each user message whose content is an array, the URL of every
  image item with a truthy URL is pushed onto \<open>imageUrls\<close>, and the content is replaced
  by its text items. The inner loop carries both accumulators.
\<close>

fun scanContent :: "content_item list \<Rightarrow> string list \<Rightarrow> content_item list
    \<Rightarrow> string list \<times> content_item list" where
  "scanContent [] imageUrls textOnlyContent = (imageUrls, textOnlyContent)"
| "scanContent (contentItem # rest) imageUrls textOnlyContent =
     (if ctype contentItem = ''image_url'' \<and>
         (case image_url contentItem of None \<Rightarrow> False | Some r \<Rightarrow> truthy (url r))
      then scanContent rest (imageUrls @ [url (the (image_url contentItem))]) textOnlyContent
      else if ctype contentItem = ''text''
      then scanContent rest imageUrls (textOnlyContent @ [contentItem])
      else scanContent rest imageUrls textOnlyContent)"

fun extractImageUrls :: "message list \<Rightarrow> string list \<Rightarrow> message list \<times> string list" where
  "extractImageUrls [] imageUrls = ([], imageUrls)"
| "extractImageUrls (m # ms) imageUrls =
     (case content m of
        Items its \<Rightarrow>
          (if role m = ''user''
           then (let (imageUrls', textOnlyContent) = scanContent its imageUrls [];
                     (ms', imageUrls'') = extractImageUrls ms imageUrls'
                 in (m\<lparr>content := Items textOnlyContent\<rparr> # ms', imageUrls''))
           else (let (ms', imageUrls') = extractImageUrls ms imageUrls in (m # ms', imageUrls')))
      | _ \<Rightarrow> (let (ms', imageUrls') = extractImageUrls ms imageUrls in (m # ms', imageUrls')))"

text \<open>
  \<open>formatMessagesToConversation\<close>: one line \<open>role: text\<close> per message that has a truthy
  role and a content that is truthy or an array; then the bracketed instruction, when
  something was written and the last message of the array is a user message.
\<close>

definition textParts :: "content_item list \<Rightarrow> string" where
  "textParts its =
     join '' '' (map (\<lambda>item. case item_text item of None \<Rightarrow> [] | Some t \<Rightarrow> t)
                   (filter (\<lambda>item. ctype item = ''text'') its))"

fun contentPresent :: "message_content \<Rightarrow> bool" where
  "contentPresent (Text s) = truthy s"
| "contentPresent (Items its) = True"
| "contentPresent NoContent = False"

fun contentText :: "message_content \<Rightarrow> string" where
  "contentText (Items its) = textParts its"
| "contentText (Text s) = s"
| "contentText NoContent = []"

fun formatLoop :: "message list \<Rightarrow> string \<Rightarrow> string" where
  "formatLoop [] formattedContent = formattedContent"
| "formatLoop (m # ms) formattedContent =
     (if truthy (role m) \<and> contentPresent (content m)
      then formatLoop ms (formattedContent @ role m @ '': '' @ contentText (content m) @ ''\<newline>'')
      else formatLoop ms formattedContent)"

definition formatMessagesToConversation :: "message list \<Rightarrow> string" where
  "formatMessagesToConversation msgs =
     (let formattedContent = formatLoop msgs [] in
      if truthy formattedContent \<and> length msgs > 0 \<and> role (last msgs) = ''user''
      then formattedContent @ ''['' @ antiSelfDialoguePrompt @ '']\<newline>''
      else formattedContent)"

text \<open>
  \<open>processMessages\<close>. The deep copy through JSON is the identity on these values, and no
  step of the typed model throws, so the \<open>catch\<close> branch of the source has no input here.
  The result is \<open>(userContent, systemPrompt, imageUrls)\<close>, with \<open>None\<close> for
  \<open>undefined\<close>.
\<close>

definition processMessages :: "request_body \<Rightarrow> string option \<times> string \<times> string list" where
  "processMessages requestBody =
     (case messages requestBody of
        None \<Rightarrow> (None, [], [])
      | Some msgs \<Rightarrow>
          if length msgs = 0 then (None, [], [])
          else (let (systemPrompt, messagesClone) = extractSystemPrompt msgs;
                    (messagesClone', imageUrls) = extractImageUrls messagesClone [];
                    userContent = formatMessagesToConversation messagesClone'
                in (Some userContent, systemPrompt, imageUrls)))"

text \<open>\<open>buildModelInput\<close>.\<close>

definition buildModelInput :: "string \<Rightarrow> string \<Rightarrow> string list \<Rightarrow> model_input" where
  "buildModelInput userContent systemPrompt imageUrls =
     (let enhancedSystemPrompt =
            (if truthy systemPrompt
             then systemPrompt @ ''\<newline>\<newline>'' @ antiSelfDialoguePrompt
             else antiSelfDialoguePrompt);
          input = \<lparr>prompt = userContent, max_tokens = 64000,
                   system_prompt = enhancedSystemPrompt, max_image_resolution = 0.5,
                   image_input = None\<rparr>
      in if length imageUrls > 0
         then (if length imageUrls = 1
               then input\<lparr>image_input := Some (imageUrls ! 0)\<rparr>
               else input\<lparr>image_input := Some (imageUrls ! (length imageUrls - 1))\<rparr>)
         else input)"

section \<open>The environment\<close>

text \<open>
  What the code reads from outside itself. \<open>config.ts\<close> is not among the source files
  modelled: its constants are fields of the environment (\<open>API_ERROR\<close> and
  \<open>INTERNAL_ERROR\<close> stand for the codes of these names in \<open>ERROR_CODES\<close>), and four
  of its error codes and its key rotation are defined
  below from the specification. The upstream API is an oracle: the outcome of a call
  may depend on the client (identified with its API key), on how many upstream calls were
  made before it, on the model and on the input. A thrown value is an \<open>Error\<close> with its
  message, or any other value with its \<open>String(...)\<close> image. The clock is the sequence of
  values \<open>Date.now()\<close> returns (milliseconds), one per reading, and \<open>encode\<close> is
  the tokenizer of gpt-tokenizer, which returns the tokens of a text or throws.
  \<open>randomUUID\<close> is what \<open>crypto.randomUUID()\<close> returns for the request at hand.
\<close>

datatype thrown = ErrorObject string | OtherValue string

datatype prediction = PredictionArray "string list" | PredictionOther string

record replicate_event =
  event :: string
  data :: "string option"

record env =
  AUTH_KEY :: string
  REPLICATE_API_KEYS :: "string list"
  DEFAULT_MODEL_ID :: string
  PROXY_MODEL_NAME :: string
  CORS_HEADERS :: "(string \<times> string) list"
  API_ERROR :: string
  INTERNAL_ERROR :: string
  encode :: "string \<Rightarrow> thrown + nat list"
  upstream_run :: "string \<Rightarrow> nat \<Rightarrow> string \<Rightarrow> model_input \<Rightarrow> thrown + prediction"
  upstream_stream :: "string \<Rightarrow> nat \<Rightarrow> string \<Rightarrow> model_input
    \<Rightarrow> replicate_event list \<times> thrown option"
  clock :: "nat \<Rightarrow> int"
  randomUUID :: string

text \<open>
  The mutable state: the rotation cursor, the clients of the upstream calls made so far (in
  order), and the number of clock readings taken.
\<close>

record world =
  cursor :: nat
  calls :: "string list"
  clock_reads :: nat

text \<open>
  Modelled from the spec: \<open>ERROR_CODES.INVALID_JSON\<close> of \<open>config.ts\<close>, the code the
  specification names for a body that is not JSON.
\<close>

definition INVALID_JSON :: string where
  "INVALID_JSON = ''invalid_json''"

text \<open>
  Modelled from the spec: \<open>ERROR_CODES.INVALID_MESSAGES\<close> of \<open>config.ts\<close>, the code the
  specification names for empty or invalid messages.
\<close>

definition INVALID_MESSAGES :: string where
  "INVALID_MESSAGES = ''invalid_messages''"

text \<open>
  Modelled from the spec: \<open>ERROR_CODES.MISSING_AUTH_HEADER\<close> of \<open>config.ts\<close>, the code
  the specification names for a missing or malformed \<open>Authorization\<close> header.
\<close>

definition MISSING_AUTH_HEADER :: string where
  "MISSING_AUTH_HEADER = ''missing_auth_header''"

text \<open>
  Modelled from the spec: \<open>ERROR_CODES.INVALID_AUTH_KEY\<close> of \<open>config.ts\<close>, the code the
  specification names for a bearer token that is not the configured secret.
\<close>

definition INVALID_AUTH_KEY :: string where
  "INVALID_AUTH_KEY = ''invalid_auth_key''"

text \<open>
  Modelled from the spec: \<open>getNextReplicateClient\<close> of \<open>config.ts\<close>, the credential
  rotator. Each call returns the client of the key under the cursor and advances the cursor
  by one modulo the pool size. The specification takes the pool to be non-empty from startup
  on, with the cursor inside it; what the rotator does otherwise is not known, and every
  theorem that depends on the client returned assumes the cursor inside the pool.
\<close>

definition getNextReplicateClient :: "env \<Rightarrow> world \<Rightarrow> string \<times> world" where
  "getNextReplicateClient e w =
     (REPLICATE_API_KEYS e ! cursor w,
      w\<lparr>cursor := (cursor w + 1) mod length (REPLICATE_API_KEYS e)\<rparr>)"

section \<open>utils.ts\<close>

record usage_info =
  prompt_tokens :: nat
  completion_tokens :: nat
  total_tokens :: nat

record chunk_delta =
  delta_role :: "string option"
  delta_content :: "string option"

record chunk_choice =
  choice_index :: nat
  delta :: chunk_delta
  finish_reason :: "string option"
  logprobs :: "unit option"

record sse_chunk =
  chunk_id :: string
  chunk_object :: string
  created :: int
  chunk_model :: string
  choices :: "chunk_choice list"
  usage :: "usage_info option"

text \<open>
  What is enqueued on the response stream: \<open>SSEData c\<close> stands for the string
  \<open>data: \<close> + \<open>JSON.stringify(c)\<close> + two newlines, \<open>SSELine s\<close> for the literal \<open>s\<close>.
\<close>

datatype frame = SSEData sse_chunk | SSELine string

text \<open>
  \<open>createSSEChunk\<close>; \<open>now_ms\<close> is the value of \<open>Date.now()\<close> the call reads. The source
  builds the chunk with an empty delta and then assigns the fields.
\<close>

definition createSSEChunk :: "string \<Rightarrow> string \<Rightarrow> string option \<Rightarrow> string option
    \<Rightarrow> string option \<Rightarrow> usage_info option \<Rightarrow> int \<Rightarrow> frame" where
  "createSSEChunk cid model content_arg role_arg finish usage_arg now_ms =
     (let now = now_ms div 1000;
          d0 = \<lparr>delta_role = None, delta_content = None\<rparr>;
          d1 = (if truthy_opt role_arg then d0\<lparr>delta_role := role_arg\<rparr> else d0);
          d2 = (if truthy_opt content_arg then d1\<lparr>delta_content := content_arg\<rparr> else d1);
          d3 = (if \<not> truthy_opt role_arg \<and> \<not> truthy_opt content_arg \<and> truthy_opt finish
                then \<lparr>delta_role = None, delta_content = None\<rparr> else d2);
          chunk = \<lparr>chunk_id = cid, chunk_object = ''chat.completion.chunk'', created = now,
                   chunk_model = model,
                   choices = [\<lparr>choice_index = 0, delta = d3, finish_reason = finish,
                               logprobs = None\<rparr>],
                   usage = None\<rparr>
      in SSEData (if usage_arg \<noteq> None \<and> finish = Some ''stop''
                  then chunk\<lparr>usage := usage_arg\<rparr> else chunk))"

record error_body =
  err_message :: string
  err_type :: string
  err_param :: "unit option"
  err_code :: string

record chat_message =
  message_role :: string
  message_content :: string

record completion_choice =
  completion_index :: nat
  completion_message :: chat_message
  completion_finish_reason :: string
  completion_logprobs :: "unit option"

record chat_completion =
  completion_id :: string
  completion_object :: string
  completion_created :: int
  completion_model :: string
  completion_choices :: "completion_choice list"
  completion_usage :: usage_info

datatype stream_end = Closed | Errored thrown

datatype response_body =
    ErrorBody error_body
  | CompletionBody chat_completion
  | StreamBody "frame list" stream_end

text \<open>
  A response: headers are listed in the order the object literal writes them (a later
  entry of the same name overrides an earlier one).
\<close>

record response =
  status :: nat
  headers :: "(string \<times> string) list"
  body :: response_body

definition createErrorResponse :: "string \<Rightarrow> nat \<Rightarrow> string \<Rightarrow> string \<Rightarrow> response" where
  "createErrorResponse msg st ty code =
     \<lparr>status = st,
      headers = [(''Content-Type'', ''application/json''),
                 (''Access-Control-Allow-Origin'', ''*'')],
      body = ErrorBody \<lparr>err_message = msg, err_type = ty, err_param = None, err_code = code\<rparr>\<rparr>"

definition createAuthErrorResponse :: "string \<Rightarrow> string \<Rightarrow> response" where
  "createAuthErrorResponse msg code =
     \<lparr>status = 401,
      headers = [(''Content-Type'', ''application/json''),
                 (''Access-Control-Allow-Origin'', ''*''),
                 (''WWW-Authenticate'', ''Bearer realm='' @ [CHR 0x22] @ ''API Access'' @ [CHR 0x22])],
      body = ErrorBody \<lparr>err_message = msg, err_type = ''invalid_request_error'',
                         err_param = None, err_code = code\<rparr>\<rparr>"

section \<open>api-service.ts\<close>

record api_service =
  modelId :: string
  maxRetries :: nat

definition createApiService :: "env \<Rightarrow> api_service" where
  "createApiService e =
     \<lparr>modelId = DEFAULT_MODEL_ID e, maxRetries = min (length (REPLICATE_API_KEYS e)) 3\<rparr>"

definition defaultApiService :: "env \<Rightarrow> api_service" where
  "defaultApiService e = createApiService e"

text \<open>
  The message of the error that the last line of both operations would synthesise when no
  error had been caught (UTF-8).
\<close>

definition allKeysFailed :: string where
  "allKeysFailed =
    [
     CHR 0xE6, CHR 0x89, CHR 0x80, CHR 0xE6, CHR 0x9C, CHR 0x89, CHR 0x41, CHR 0x50, CHR 0x49, CHR 0xE5,
     CHR 0xAF, CHR 0x86, CHR 0xE9, CHR 0x92, CHR 0xA5, CHR 0xE8, CHR 0xB0, CHR 0x83, CHR 0xE7, CHR 0x94,
     CHR 0xA8, CHR 0xE9, CHR 0x83, CHR 0xBD, CHR 0xE5, CHR 0xA4, CHR 0xB1, CHR 0xE8, CHR 0xB4, CHR 0xA5
    ]"

fun asError :: "thrown \<Rightarrow> thrown" where
  "asError (ErrorObject m) = ErrorObject m"
| "asError (OtherValue s) = ErrorObject s"

definition throwLast :: "thrown option \<Rightarrow> thrown" where
  "throwLast lastError = (case lastError of Some err \<Rightarrow> err | None \<Rightarrow> ErrorObject allKeysFailed)"

fun predictionText :: "prediction \<Rightarrow> string" where
  "predictionText (PredictionArray xs) = join [] xs"
| "predictionText (PredictionOther s) = s"

text \<open>
  \<open>getModelResponse\<close>: the \<open>while\<close> loop, with its variables as arguments. An upstream
  call is logged with its client; \<open>Inl\<close> is the thrown error, \<open>Inr\<close> the returned text.
\<close>

function getModelResponseLoop :: "env \<Rightarrow> api_service \<Rightarrow> model_input \<Rightarrow> nat \<Rightarrow> string
    \<Rightarrow> thrown option \<Rightarrow> world \<Rightarrow> (thrown + string) \<times> world" where
  "getModelResponseLoop e svc input retries replicateClient lastError w =
     (if retries \<le> maxRetries svc
      then (let w1 = w\<lparr>calls := calls w @ [replicateClient]\<rparr> in
            case upstream_run e replicateClient (length (calls w)) (modelId svc) input of
              Inr prediction \<Rightarrow> (Inr (predictionText prediction), w1)
            | Inl err \<Rightarrow>
                (if retries < maxRetries svc
                 then (let (replicateClient', w2) = getNextReplicateClient e w1
                       in getModelResponseLoop e svc input (retries + 1) replicateClient'
                            (Some (asError err)) w2)
                 else (Inl (throwLast (Some (asError err))), w1)))
      else (Inl (throwLast lastError), w))"
  by pat_completeness auto
termination
  by (relation "measure (\<lambda>(e, svc, input, retries, c, l, w). Suc (maxRetries svc) - retries)") auto

definition getModelResponse :: "env \<Rightarrow> api_service \<Rightarrow> model_input \<Rightarrow> world
    \<Rightarrow> (thrown + string) \<times> world" where
  "getModelResponse e svc input w =
     (let (replicateClient, w1) = getNextReplicateClient e w
      in getModelResponseLoop e svc input 0 replicateClient None w1)"

text \<open>
  \<open>streamModelResponse\<close> is an async generator, and what it does depends on who consumes it:
  each \<open>yield event\<close> hands the event to the body of the consumer's \<open>for await\<close> loop, and
  when that body throws, the loop calls the generator's \<open>return()\<close>, which ends it at the
  \<open>yield\<close> without entering its \<open>catch\<close>: no retry, no further upstream call. The consumer
  is a state and a loop body, which returns the new state and what it throws, if anything.
  An upstream stream is the events it yields and, when it fails, the value it throws after
  them. \<open>forAwait\<close> is the inner loop over one upstream stream.
\<close>

datatype stream_outcome = Returned | Threw thrown | Aborted thrown

fun forAwait :: "('s \<Rightarrow> replicate_event \<Rightarrow> 's \<times> thrown option) \<Rightarrow> replicate_event list \<Rightarrow> 's
    \<Rightarrow> 's \<times> thrown option" where
  "forAwait loopBody [] s = (s, None)"
| "forAwait loopBody (ev # evs) s =
     (case loopBody s ev of
        (s', None) \<Rightarrow> forAwait loopBody evs s'
      | (s', Some err) \<Rightarrow> (s', Some err))"

text \<open>
  The \<open>while\<close> loop of \<open>streamModelResponse\<close>, with its variables as arguments. The
  result is the consumer's last state and how the generator ended: it returned, it threw
  (every attempt failed), or the consumer's loop body threw and ended it (\<open>Aborted\<close>). A retry
  starts the upstream stream again; what a failed attempt yielded has been consumed.
\<close>

function streamModelResponseLoop :: "env \<Rightarrow> api_service \<Rightarrow> model_input
    \<Rightarrow> ('s \<Rightarrow> replicate_event \<Rightarrow> 's \<times> thrown option) \<Rightarrow> nat \<Rightarrow> string
    \<Rightarrow> thrown option \<Rightarrow> 's \<Rightarrow> world \<Rightarrow> ('s \<times> stream_outcome) \<times> world" where
  "streamModelResponseLoop e svc input loopBody retries replicateClient lastError s w =
     (if retries \<le> maxRetries svc
      then (let w1 = w\<lparr>calls := calls w @ [replicateClient]\<rparr> in
            case upstream_stream e replicateClient (length (calls w)) (modelId svc) input of
              (events, failure) \<Rightarrow>
                (case forAwait loopBody events s of
                   (s', Some thrownByBody) \<Rightarrow> ((s', Aborted thrownByBody), w1)
                 | (s', None) \<Rightarrow>
                     (case failure of
                        None \<Rightarrow> ((s', Returned), w1)
                      | Some err \<Rightarrow>
                          (if retries < maxRetries svc
                           then (let (replicateClient', w2) = getNextReplicateClient e w1
                                 in streamModelResponseLoop e svc input loopBody (retries + 1)
                                      replicateClient' (Some (asError err)) s' w2)
                           else ((s', Threw (throwLast (Some (asError err)))), w1)))))
      else ((s, Threw (throwLast lastError)), w))"
  by pat_completeness auto
termination
  by (relation "measure (\<lambda>(e, svc, input, loopBody, retries, c, l, s, w).
        Suc (maxRetries svc) - retries)") auto

definition streamModelResponseWith :: "env \<Rightarrow> api_service \<Rightarrow> model_input
    \<Rightarrow> ('s \<Rightarrow> replicate_event \<Rightarrow> 's \<times> thrown option) \<Rightarrow> 's \<Rightarrow> world
    \<Rightarrow> ('s \<times> stream_outcome) \<times> world" where
  "streamModelResponseWith e svc input loopBody s w =
     (let (replicateClient, w1) = getNextReplicateClient e w
      in streamModelResponseLoop e svc input loopBody 0 replicateClient None s w1)"

text \<open>
  The generator consumed to its end, by a caller that takes every event and never throws:
  the events it yields over all attempts, and the error it throws to that caller, if any.
\<close>

definition streamModelResponse :: "env \<Rightarrow> api_service \<Rightarrow> model_input \<Rightarrow> world
    \<Rightarrow> (replicate_event list \<times> thrown option) \<times> world" where
  "streamModelResponse e svc input w =
     (case streamModelResponseWith e svc input (\<lambda>yielded ev. (yielded @ [ev], None)) [] w of
        ((yielded, Returned), w') \<Rightarrow> ((yielded, None), w')
      | ((yielded, Threw err), w') \<Rightarrow> ((yielded, Some err), w')
      | ((yielded, Aborted err), w') \<Rightarrow> ((yielded, Some err), w'))"

section \<open>controllers.ts\<close>

text \<open>
  \<open>toLowerCase\<close> on the ASCII letters. The code only tests the result against the
  ASCII prefix \<open>bearer \<close>, and no character outside ASCII lower-cases to one of its letters.
\<close>

definition toLowerCase :: "string \<Rightarrow> string" where
  "toLowerCase s =
     map (\<lambda>c. case map_of (zip ''ABCDEFGHIJKLMNOPQRSTUVWXYZ'' ''abcdefghijklmnopqrstuvwxyz'') c of
                None \<Rightarrow> c
              | Some l \<Rightarrow> l) s"

definition startsWith :: "string \<Rightarrow> string \<Rightarrow> bool" where
  "startsWith s p = (take (length p) s = p)"

record auth_validation =
  isValid :: bool
  providedKey :: "string option"
  auth_response :: "response option"

definition validateApiKey :: "env \<Rightarrow> string option \<Rightarrow> auth_validation" where
  "validateApiKey e authHeader =
     (if \<not> truthy_opt authHeader \<or> \<not> startsWith (toLowerCase (the authHeader)) ''bearer ''
      then \<lparr>isValid = False, providedKey = None,
            auth_response = Some (createAuthErrorResponse
              (''Unauthorized: Missing or invalid Authorization header. '' @
               ''Use 'Bearer <YOUR_API_KEY>' format.'')
              MISSING_AUTH_HEADER)\<rparr>
      else (let key = drop 7 (the authHeader) in
            if key \<noteq> AUTH_KEY e
            then \<lparr>isValid = False, providedKey = None,
                  auth_response = Some (createAuthErrorResponse
                    ''Unauthorized: Invalid API Key provided.'' INVALID_AUTH_KEY)\<rparr>
            else \<lparr>isValid = True, providedKey = Some key, auth_response = None\<rparr>))"

text \<open>
  \<open>encode(text).length\<close>: the tokenizer may throw (gpt-tokenizer does on text that holds
  a special token), so the count is a result.
\<close>

definition tokenCount :: "env \<Rightarrow> string \<Rightarrow> thrown + nat" where
  "tokenCount e s = (case encode e s of Inl err \<Rightarrow> Inl err | Inr tokens \<Rightarrow> Inr (length tokens))"

text \<open>
  The variables of \<open>start(controller)\<close> in \<open>handleStreamResponse\<close>: the two locals, what
  has been enqueued on the controller so far, and the number of clock readings taken (every
  chunk reads the clock once).
\<close>

record encoder_state =
  isFirstEvent :: bool
  completionContent :: string
  enqueued :: "frame list"
  reads :: nat

text \<open>
  The body of the \<open>for await\<close> loop of \<open>start(controller)\<close>, for one event. At a \<open>done\<close>
  event the tokenizer runs before the terminal chunk is built: when it throws, nothing more
  is enqueued (the role chunk of a first event already is) and the body throws.
\<close>

definition encodeEvent :: "env \<Rightarrow> string \<Rightarrow> string \<Rightarrow> nat \<Rightarrow> encoder_state \<Rightarrow> replicate_event
    \<Rightarrow> encoder_state \<times> thrown option" where
  "encodeEvent e chatCompletionId modelName totalPromptTokens s ev =
     (let s1 = (if isFirstEvent s
                then s\<lparr>isFirstEvent := False,
                       enqueued := enqueued s @
                         [createSSEChunk chatCompletionId modelName None (Some ''assistant'')
                            None None (clock e (reads s))],
                       reads := reads s + 1\<rparr>
                else s)
      in if event ev = ''output'' \<and> data ev \<noteq> None
         then (s1\<lparr>completionContent := completionContent s1 @ the (data ev),
                  enqueued := enqueued s1 @
                    [createSSEChunk chatCompletionId modelName (data ev) None None None
                       (clock e (reads s1))],
                  reads := reads s1 + 1\<rparr>, None)
         else if event ev = ''done''
         then (case tokenCount e (completionContent s1) of
                 Inl err \<Rightarrow> (s1, Some err)
               | Inr completionTokens \<Rightarrow>
                   (let totalTokens = totalPromptTokens + completionTokens;
                        usageInfo = \<lparr>prompt_tokens = totalPromptTokens,
                                     completion_tokens = completionTokens,
                                     total_tokens = totalTokens\<rparr>
                    in (s1\<lparr>enqueued := enqueued s1 @
                             [createSSEChunk chatCompletionId modelName None None (Some ''stop'')
                                (Some usageInfo) (clock e (reads s1)),
                              SSELine ''data: [DONE]\<newline>\<newline>''],
                           reads := reads s1 + 1\<rparr>, None)))
         else (s1, None))"

text \<open>
  \<open>handleStreamResponse\<close>. The prompt and the system prompt are tokenized before the
  stream is built, outside any \<open>try\<close> of this function: when the tokenizer throws there,
  the function throws (\<open>Inl\<close>). Otherwise the response is returned with status 200, and
  its stream holds what \<open>start(controller)\<close> enqueues while it consumes the generator; the
  stream is closed when the generator returns (\<open>controller.close()\<close>) and put in the error
  state when the generator or the loop body throws (\<open>controller.error(error)\<close>).
\<close>

definition handleStreamResponse :: "env \<Rightarrow> world \<Rightarrow> string \<Rightarrow> string \<Rightarrow> model_input
    \<Rightarrow> (thrown + response) \<times> world" where
  "handleStreamResponse e w chatCompletionId modelName input =
     (case tokenCount e (prompt input) of
        Inl err \<Rightarrow> (Inl err, w)
      | Inr promptTokens \<Rightarrow>
          (case (if truthy (system_prompt input) then tokenCount e (system_prompt input)
                 else Inr 0) of
             Inl err \<Rightarrow> (Inl err, w)
           | Inr systemPromptTokens \<Rightarrow>
               (let totalPromptTokens = promptTokens + systemPromptTokens;
                    ((s, outcome), w1) =
                      streamModelResponseWith e (defaultApiService e) input
                        (encodeEvent e chatCompletionId modelName totalPromptTokens)
                        \<lparr>isFirstEvent = True, completionContent = [], enqueued = [],
                         reads = clock_reads w\<rparr> w
                in (Inr \<lparr>status = 200,
                         headers = [(''Content-Type'', ''text/event-stream''),
                                    (''Cache-Control'', ''no-cache''),
                                    (''Connection'', ''keep-alive'')] @ CORS_HEADERS e,
                         body = StreamBody (enqueued s)
                                  (case outcome of
                                     Returned \<Rightarrow> Closed
                                   | Threw err \<Rightarrow> Errored err
                                   | Aborted err \<Rightarrow> Errored err)\<rparr>,
                    w1\<lparr>clock_reads := reads s\<rparr>))))"

fun errorMessage :: "thrown \<Rightarrow> string" where
  "errorMessage (ErrorObject m) = m"
| "errorMessage (OtherValue s) = s"

text \<open>
  \<open>handleNonStreamResponse\<close>. Its \<open>catch\<close> takes what the dispatcher throws and what the
  tokenizer throws, and answers 500 with type \<open>api_error\<close>.
\<close>

definition apiErrorResponse :: "env \<Rightarrow> thrown \<Rightarrow> response" where
  "apiErrorResponse e err =
     createErrorResponse (''Failed to get response from API: '' @ errorMessage err) 500
       ''api_error'' (API_ERROR e)"

definition handleNonStreamResponse :: "env \<Rightarrow> world \<Rightarrow> string \<Rightarrow> string \<Rightarrow> model_input
    \<Rightarrow> response \<times> world" where
  "handleNonStreamResponse e w chatCompletionId modelName input =
     (case getModelResponse e (defaultApiService e) input w of
        (Inl err, w1) \<Rightarrow> (apiErrorResponse e err, w1)
      | (Inr assistantContent, w1) \<Rightarrow>
          (case tokenCount e (prompt input) of
             Inl err \<Rightarrow> (apiErrorResponse e err, w1)
           | Inr promptTokens \<Rightarrow>
               (case (if truthy (system_prompt input) then tokenCount e (system_prompt input)
                      else Inr 0) of
                  Inl err \<Rightarrow> (apiErrorResponse e err, w1)
                | Inr systemPromptTokens \<Rightarrow>
                    (case tokenCount e assistantContent of
                       Inl err \<Rightarrow> (apiErrorResponse e err, w1)
                     | Inr completionTokens \<Rightarrow>
                         (let totalTokens = promptTokens + systemPromptTokens + completionTokens;
                              finalResponse =
                                \<lparr>completion_id = chatCompletionId,
                                 completion_object = ''chat.completion'',
                                 completion_created = clock e (clock_reads w1) div 1000,
                                 completion_model = modelName,
                                 completion_choices =
                                   [\<lparr>completion_index = 0,
                                     completion_message =
                                       \<lparr>message_role = ''assistant'',
                                        message_content = assistantContent\<rparr>,
                                     completion_finish_reason = ''stop'',
                                     completion_logprobs = None\<rparr>],
                                 completion_usage =
                                   \<lparr>prompt_tokens = promptTokens + systemPromptTokens,
                                    completion_tokens = completionTokens,
                                    total_tokens = totalTokens\<rparr>\<rparr>
                          in (\<lparr>status = 200,
                                headers = [(''Content-Type'', ''application/json'')] @
                                          CORS_HEADERS e,
                                body = CompletionBody finalResponse\<rparr>,
                              w1\<lparr>clock_reads := clock_reads w1 + 1\<rparr>))))))"

text \<open>
  A request to the chat-completions route: the value of its \<open>Authorization\<close> header and
  its body, \<open>None\<close> when \<open>req.json()\<close> throws. \<open>handleNonStreamResponse\<close> catches what
  it meets, and a failing stream fails after the response has been returned; the one input
  of the outer \<open>catch\<close> of \<open>handleChatCompletionRequest\<close> (500, \<open>internal_error\<close>) is
  \<open>handleStreamResponse\<close> throwing before it returns.
\<close>

record request =
  authorization :: "string option"
  json_body :: "request_body option"

definition handleChatCompletionRequest :: "env \<Rightarrow> world \<Rightarrow> request \<Rightarrow> response \<times> world" where
  "handleChatCompletionRequest e w req =
     (let authValidation = validateApiKey e (authorization req) in
      if \<not> isValid authValidation then (the (auth_response authValidation), w)
      else case json_body req of
        None \<Rightarrow> (createErrorResponse ''Invalid JSON in request body'' 400
                    ''invalid_request_error'' INVALID_JSON, w)
      | Some requestBody \<Rightarrow>
          (let isStream = stream requestBody;
               (userContent, systemPrompt, imageUrls) = processMessages requestBody
           in if \<not> truthy_opt userContent
              then (createErrorResponse
                      ''Request body must contain a non-empty 'messages' array.'' 400
                      ''invalid_request_error'' INVALID_MESSAGES, w)
              else (let input = buildModelInput (the userContent) systemPrompt imageUrls;
                        chatCompletionId = ''chatcmpl-'' @ randomUUID e;
                        modelName = (if truthy_opt (model_name requestBody)
                                     then the (model_name requestBody)
                                     else PROXY_MODEL_NAME e)
                    in if isStream
                       then (case handleStreamResponse e w chatCompletionId modelName input of
                               (Inr streamResponse, w') \<Rightarrow> (streamResponse, w')
                             | (Inl err, w') \<Rightarrow>
                                 (createErrorResponse ''Internal Server Error'' 500
                                    ''internal_error'' (INTERNAL_ERROR e), w'))
                       else handleNonStreamResponse e w chatCompletionId modelName input)))"

text \<open>
  The normalisation step of the handler on its own (\<open>processMessages\<close>, the test of
  \<open>userContent\<close>, \<open>buildModelInput\<close>): the model input built for a request body, or
  \<open>None\<close> when the handler answers 400 instead.
\<close>

definition normalizeRequest :: "request_body \<Rightarrow> model_input option" where
  "normalizeRequest requestBody =
     (let (userContent, systemPrompt, imageUrls) = processMessages requestBody
      in if \<not> truthy_opt userContent then None
         else Some (buildModelInput (the userContent) systemPrompt imageUrls))"

section \<open>Notions the properties are stated with\<close>

text \<open>
  The transcript of a message list, written directly: one line \<open>role: text\<close> for every
  message that has a non-empty role and a content that is a non-empty string or an array.
\<close>
definition serializable :: "message \<Rightarrow> bool" where
  "serializable m = (role m \<noteq> [] \<and> contentPresent (content m))"

definition transcript_line :: "message \<Rightarrow> string" where
  "transcript_line m =
     (if serializable m
      then role m @ '': '' @ contentText (content m) @ ''\<newline>'' else [])"

definition transcript :: "message list \<Rightarrow> string" where
  "transcript msgs = concat (map transcript_line msgs)"

definition non_system :: "message list \<Rightarrow> message list" where
  "non_system msgs = filter (\<lambda>m. role m \<noteq> ''system'') msgs"

definition directive_line :: string where
  "directive_line = ''['' @ antiSelfDialoguePrompt @ '']\<newline>''"

text \<open>
  The image URLs of a conversation in message order: the non-empty URLs of the
  \<open>image_url\<close> items of user messages whose content is an array. \<open>strip_images\<close> is
  what is left of such a message.
\<close>
definition item_urls :: "content_item list \<Rightarrow> string list" where
  "item_urls its =
     map (\<lambda>it. url (the (image_url it)))
       (filter (\<lambda>it. ctype it = ''image_url'' \<and> image_url it \<noteq> None \<and>
                      url (the (image_url it)) \<noteq> []) its)"

definition message_urls :: "message \<Rightarrow> string list" where
  "message_urls m =
     (if role m = ''user'' then (case content m of Items its \<Rightarrow> item_urls its | _ \<Rightarrow> [])
      else [])"

definition conversation_urls :: "message list \<Rightarrow> string list" where
  "conversation_urls msgs = concat (map message_urls msgs)"

definition strip_images :: "message \<Rightarrow> message" where
  "strip_images m =
     (if role m = ''user''
      then (case content m of
              Items its \<Rightarrow> m\<lparr>content := Items (filter (\<lambda>it. ctype it = ''text'') its)\<rparr>
            | _ \<Rightarrow> m)
      else m)"


text \<open>
  The chunks among the frames of a stream, the frames of a streaming response, and what
  every chunk of one response shares: the identifier, the model name, and a delta whose
  fields, when present, are non-empty strings.
\<close>
fun chunks_of :: "frame list \<Rightarrow> sse_chunk list" where
  "chunks_of [] = []"
| "chunks_of (SSEData c # fs) = c # chunks_of fs"
| "chunks_of (SSELine s # fs) = chunks_of fs"

definition response_frames :: "thrown + response \<Rightarrow> frame list" where
  "response_frames r =
     (case r of
        Inl err \<Rightarrow> []
      | Inr resp \<Rightarrow> (case body resp of StreamBody out ending \<Rightarrow> out | _ \<Rightarrow> []))"

definition chunk_of_response :: "string \<Rightarrow> string \<Rightarrow> sse_chunk \<Rightarrow> bool" where
  "chunk_of_response cid model c =
     (chunk_id c = cid \<and> chunk_model c = model \<and>
      list_all (\<lambda>ch. delta_role (delta ch) \<noteq> Some [] \<and> delta_content (delta ch) \<noteq> Some [])
        (choices c))"

text \<open>
  The encoder fed a finite sequence of events: what \<open>start(controller)\<close> enqueues, how
  the stream ends and how many clock readings were taken, when the generator yields
  \<open>events\<close> and then returns (\<open>failure = None\<close>) or throws. When the loop body throws
  at an event, the stream is put in the error state there and the later events are not
  consumed. A frame is a chunk or a literal line, and a chunk is open when it has no
  \<open>finish_reason\<close>.
\<close>

definition initial_encoder :: "nat \<Rightarrow> encoder_state" where
  "initial_encoder k = \<lparr>isFirstEvent = True, completionContent = [], enqueued = [], reads = k\<rparr>"

definition stream_ending :: "thrown option \<Rightarrow> thrown option \<Rightarrow> stream_end" where
  "stream_ending thrownByBody failure =
     (case thrownByBody of
        Some err \<Rightarrow> Errored err
      | None \<Rightarrow> (case failure of None \<Rightarrow> Closed | Some err \<Rightarrow> Errored err))"

definition encodeStream :: "env \<Rightarrow> string \<Rightarrow> string \<Rightarrow> nat \<Rightarrow> replicate_event list
    \<Rightarrow> thrown option \<Rightarrow> nat \<Rightarrow> (frame list \<times> stream_end) \<times> nat" where
  "encodeStream e cid model T events failure k =
     (case forAwait (encodeEvent e cid model T) events (initial_encoder k) of
        (s, thrownByBody) \<Rightarrow> ((enqueued s, stream_ending thrownByBody failure), reads s))"



section \<open>Concrete inputs\<close>

text \<open>
  An environment with five keys whose upstream refuses every call, a variant whose stream
  yields given events and completes, a clock that stands at 999 ms into a second and moves
  on by 5 ms per reading after the second one, and a tokenizer with one token per byte; in
  \<open>strict_env\<close> the tokenizer throws on the text \<open><|endoftext|>\<close>.
\<close>
definition demo_env :: env where
  "demo_env =
     \<lparr>AUTH_KEY = ''secret'', REPLICATE_API_KEYS = [''key-a'', ''key-b'', ''key-c'', ''key-d'', ''key-e''],
      DEFAULT_MODEL_ID = ''owner/model'', PROXY_MODEL_NAME = ''proxy-model'',
      CORS_HEADERS = [(''Access-Control-Allow-Origin'', ''*'')], API_ERROR = ''api_error'',
      INTERNAL_ERROR = ''internal_error'', encode = (\<lambda>s. Inr (map of_char s)),
      upstream_run = (\<lambda>client n model input. Inl (ErrorObject (''refused '' @ client))),
      upstream_stream = (\<lambda>client n model input. ([], Some (ErrorObject (''refused '' @ client)))),
      clock = (\<lambda>k. 1700000000999 + 5 * int (k - 1)),
      randomUUID = ''00000000-0000-4000-8000-000000000000''\<rparr>"

definition stream_env :: "replicate_event list \<Rightarrow> env" where
  "stream_env events =
     demo_env\<lparr>upstream_stream := (\<lambda>client n model input. (events, None))\<rparr>"


definition demo_world :: world where
  "demo_world = \<lparr>cursor = 0, calls = [], clock_reads = 0\<rparr>"

definition demo_input :: model_input where
  "demo_input =
     \<lparr>prompt = ''hello'', max_tokens = 64000, system_prompt = ''ok'',
      max_image_resolution = 0.5, image_input = None\<rparr>"

definition demo_events :: "replicate_event list" where
  "demo_events =
     [\<lparr>event = ''output'', data = Some ''Hi''\<rparr>,
      \<lparr>event = ''output'', data = Some '' there''\<rparr>,
      \<lparr>event = ''done'', data = Some ''{}''\<rparr>]"

definition demo_body :: "message list \<Rightarrow> request_body" where
  "demo_body msgs = \<lparr>model_name = None, messages = Some msgs, stream = False\<rparr>"

definition demo_request :: "string \<Rightarrow> message list \<Rightarrow> request" where
  "demo_request header msgs = \<lparr>authorization = Some header, json_body = Some (demo_body msgs)\<rparr>"

definition text_item :: "string \<Rightarrow> content_item" where
  "text_item t = \<lparr>ctype = ''text'', item_text = Some t, image_url = None\<rparr>"

definition image_item :: "string \<Rightarrow> content_item" where
  "image_item u = \<lparr>ctype = ''image_url'', item_text = None, image_url = Some \<lparr>url = u\<rparr>\<rparr>"


text \<open>
  The loops are unfolded one iteration at a time, by \<open>subst\<close>.
\<close>

declare getModelResponseLoop.simps [simp del]

declare streamModelResponseLoop.simps [simp del]


section \<open>Message normalisation, step by step\<close>
lemma extractSystemPrompt_rest: "snd (extractSystemPrompt msgs) = non_system msgs"
proof (cases "filter (\<lambda>m. role m = ''system'') msgs = []")
  case True
  then have "\<forall>m \<in> set msgs. role m \<noteq> ''system''"
    by (simp add: filter_empty_conv)
  then have "filter (\<lambda>m. role m \<noteq> ''system'') msgs = msgs"
    by (simp add: filter_id_conv)
  with True show ?thesis
    by (simp add: extractSystemPrompt_def non_system_def)
next
  case False
  then show ?thesis
    by (simp add: extractSystemPrompt_def non_system_def Let_def)
qed

lemma scanContent_eq:
  "scanContent its imgs texts =
     (imgs @ item_urls its, texts @ filter (\<lambda>it. ctype it = ''text'') its)"
proof (induction its arbitrary: imgs texts)
  case Nil
  then show ?case by (simp add: item_urls_def)
next
  case (Cons it its)
  then show ?case
    by (cases "image_url it") (auto simp: item_urls_def truthy_def)
qed

lemma extractImageUrls_eq:
  "extractImageUrls ms imgs = (map strip_images ms, imgs @ conversation_urls ms)"
proof (induction ms arbitrary: imgs)
  case Nil
  then show ?case by (simp add: conversation_urls_def)
next
  case (Cons m ms)
  show ?case
  proof (cases "content m")
    case (Items its)
    then show ?thesis
      using Cons.IH
      by (simp add: scanContent_eq strip_images_def message_urls_def conversation_urls_def)
  next
    case (Text s)
    then show ?thesis
      using Cons.IH by (simp add: strip_images_def message_urls_def conversation_urls_def)
  next
    case NoContent
    then show ?thesis
      using Cons.IH by (simp add: strip_images_def message_urls_def conversation_urls_def)
  qed
qed

lemma formatLoop_eq: "formatLoop ms acc = acc @ transcript ms"
  by (induction ms arbitrary: acc) (simp_all add: transcript_def transcript_line_def serializable_def truthy_def)

lemma textParts_filter: "textParts (filter (\<lambda>it. ctype it = ''text'') its) = textParts its"
  by (simp add: textParts_def)

lemma transcript_line_strip: "transcript_line (strip_images m) = transcript_line m"
  by (cases "content m") (simp_all add: transcript_line_def serializable_def strip_images_def textParts_filter)

lemma transcript_strip: "transcript (map strip_images ms) = transcript ms"
  by (simp add: transcript_def transcript_line_strip comp_def)

lemma role_strip: "role (strip_images m) = role m"
  by (cases "content m") (simp_all add: strip_images_def)

lemma conversation_urls_non_system: "conversation_urls (non_system msgs) = conversation_urls msgs"
  by (induction msgs) (simp_all add: conversation_urls_def non_system_def message_urls_def)

lemma formatMessages_eq:
  "formatMessagesToConversation (map strip_images ms) =
     (if transcript ms \<noteq> [] \<and> ms \<noteq> [] \<and> role (last ms) = ''user''
      then transcript ms @ directive_line else transcript ms)"
  by (auto simp: formatMessagesToConversation_def formatLoop_eq transcript_strip truthy_def
      last_map role_strip directive_line_def Let_def)

lemma processMessages_eq:
  assumes "messages rb = Some msgs" and "msgs \<noteq> []"
  shows "processMessages rb =
     (Some (formatMessagesToConversation (map strip_images (non_system msgs))),
      fst (extractSystemPrompt msgs), conversation_urls msgs)"
proof -
  obtain sp rest where sp: "extractSystemPrompt msgs = (sp, rest)"
    by (cases "extractSystemPrompt msgs")
  with extractSystemPrompt_rest [of msgs] have rest: "rest = non_system msgs"
    by simp
  show ?thesis
    using assms sp
    by (simp add: processMessages_def extractImageUrls_eq rest conversation_urls_non_system)
qed

lemma transcript_empty_iff: "transcript ms = [] \<longleftrightarrow> list_all (\<lambda>m. \<not> serializable m) ms"
  by (induction ms) (simp_all add: transcript_def transcript_line_def)

lemma normalize_eq:
  assumes "messages rb = Some msgs"
  shows "normalizeRequest rb =
     (if transcript (non_system msgs) = [] then None
      else Some (buildModelInput
                   (transcript (non_system msgs) @
                      (if role (last (non_system msgs)) = ''user'' then directive_line else []))
                   (fst (extractSystemPrompt msgs)) (conversation_urls msgs)))"
proof (cases "msgs = []")
  case True
  with assms show ?thesis
    by (simp add: normalizeRequest_def processMessages_def non_system_def transcript_def)
next
  case False
  have "transcript (non_system msgs) \<noteq> [] \<Longrightarrow> non_system msgs \<noteq> []"
    by (auto simp: transcript_def)
  then show ?thesis
    using processMessages_eq [OF assms False]
    by (auto simp: normalizeRequest_def formatMessages_eq truthy_def)
qed

lemma normalize_no_messages: "messages rb = None \<Longrightarrow> normalizeRequest rb = None"
  by (simp add: normalizeRequest_def processMessages_def)

lemma handler_normalize:
  assumes "isValid (validateApiKey e (authorization req))" and "json_body req = Some rb"
  shows "handleChatCompletionRequest e w req =
     (case normalizeRequest rb of
        None \<Rightarrow> (createErrorResponse
                    ''Request body must contain a non-empty 'messages' array.'' 400
                    ''invalid_request_error'' INVALID_MESSAGES, w)
      | Some input \<Rightarrow>
          (if stream rb
           then (case handleStreamResponse e w (''chatcmpl-'' @ randomUUID e)
                        (if truthy_opt (model_name rb) then the (model_name rb)
                         else PROXY_MODEL_NAME e) input of
                   (Inr streamResponse, w') \<Rightarrow> (streamResponse, w')
                 | (Inl err, w') \<Rightarrow>
                     (createErrorResponse ''Internal Server Error'' 500
                        ''internal_error'' (INTERNAL_ERROR e), w'))
           else handleNonStreamResponse e w (''chatcmpl-'' @ randomUUID e)
                  (if truthy_opt (model_name rb) then the (model_name rb)
                   else PROXY_MODEL_NAME e) input))"
  using assms
  by (cases "processMessages rb")
     (simp add: handleChatCompletionRequest_def normalizeRequest_def Let_def)

lemma stream_status:
  "fst (handleStreamResponse e w cid model input) = Inr r \<Longrightarrow> status r = 200"
  by (auto simp: handleStreamResponse_def Let_def split: prod.splits sum.splits)

lemma non_stream_status:
  "status (fst (handleNonStreamResponse e w cid model input)) \<noteq> 400"
  by (simp add: handleNonStreamResponse_def apiErrorResponse_def createErrorResponse_def Let_def
      split: prod.splits sum.splits)

lemma accepted_status:
  assumes "isValid (validateApiKey e (authorization req))" and "json_body req = Some rb"
    and "normalizeRequest rb = Some input"
  shows "status (fst (handleChatCompletionRequest e w req)) \<noteq> 400"
proof (cases "stream rb")
  case False
  then show ?thesis
    by (simp add: handler_normalize [OF assms(1,2)] assms(3) non_stream_status)
next
  case True
  let ?r = "handleStreamResponse e w (''chatcmpl-'' @ randomUUID e)
      (if truthy_opt (model_name rb) then the (model_name rb) else PROXY_MODEL_NAME e) input"
  obtain res w' where r: "?r = (res, w')"
    by (cases ?r)
  show ?thesis
  proof (cases res)
    case (Inl err)
    with True r show ?thesis
      by (simp add: handler_normalize [OF assms(1,2)] assms(3) createErrorResponse_def)
  next
    case (Inr resp)
    with r have "fst ?r = Inr resp"
      by simp
    then have "status resp = 200"
      by (rule stream_status)
    with True r Inr show ?thesis
      by (simp add: handler_normalize [OF assms(1,2)] assms(3))
  qed
qed

lemma demo_accepts_hi:
  "normalizeRequest (demo_body [\<lparr>role = ''user'', content = Text ''hi''\<rparr>]) =
     Some (buildModelInput (''user: hi\<newline>'' @ directive_line) [] [])"
  by (simp add: normalize_eq [of _ "[\<lparr>role = ''user'', content = Text ''hi''\<rparr>]"] demo_body_def
      non_system_def transcript_def transcript_line_def serializable_def truthy_def
      conversation_urls_def message_urls_def extractSystemPrompt_def trim_def)

lemma demo_accepts_system_user:
  "normalizeRequest (demo_body [\<lparr>role = ''system'', content = Text '' be brief ''\<rparr>,
                         \<lparr>role = ''user'', content = Text ''hi''\<rparr>]) =
     Some (buildModelInput (''user: hi\<newline>'' @ directive_line) ''be brief'' [])"
  by (simp add: normalize_eq [of _ "[\<lparr>role = ''system'', content = Text '' be brief ''\<rparr>,
        \<lparr>role = ''user'', content = Text ''hi''\<rparr>]"] demo_body_def
      non_system_def transcript_def transcript_line_def serializable_def truthy_def
      conversation_urls_def message_urls_def extractSystemPrompt_def trim_def js_whitespace_def)

section \<open>The authorization header\<close>
lemma startsWith_bearer: "startsWith s ''bearer '' \<longleftrightarrow> take 7 s = ''bearer ''"
proof -
  have "length ''bearer '' = (7::nat)"
    by simp
  then show ?thesis
    unfolding startsWith_def by (simp only:)
qed

lemma toLowerCase_length: "length (toLowerCase s) = length s"
  by (simp add: toLowerCase_def)

lemma toLowerCase_append: "toLowerCase (s @ t) = toLowerCase s @ toLowerCase t"
  by (simp add: toLowerCase_def)

lemma toLowerCase_scheme:
  assumes "toLowerCase scheme = ''bearer ''"
  shows "startsWith (toLowerCase (scheme @ token)) ''bearer ''" and "drop 7 (scheme @ token) = token"
    and "scheme @ token \<noteq> []"
proof -
  have "length (toLowerCase scheme) = 7"
    by (simp add: assms)
  then have len: "length scheme = 7"
    by (simp add: toLowerCase_length)
  show "startsWith (toLowerCase (scheme @ token)) ''bearer ''"
    by (simp add: startsWith_bearer toLowerCase_append assms)
  show "drop 7 (scheme @ token) = token"
    using len by simp
  show "scheme @ token \<noteq> []"
    using len by auto
qed

lemma demo_auth: "isValid (validateApiKey demo_env (Some ''Bearer secret''))"
  by (simp add: validateApiKey_def demo_env_def startsWith_def toLowerCase_def truthy_def)

section \<open>The retry loops\<close>






lemma forAwait_append:
  "forAwait b (xs @ ys) s =
     (case forAwait b xs s of
        (s', None) \<Rightarrow> forAwait b ys s'
      | (s', Some err) \<Rightarrow> (s', Some err))"
  by (induction xs arbitrary: s) (simp_all split: prod.splits option.splits)

lemma forAwait_collect: "forAwait (\<lambda>yielded ev. (yielded @ [ev], None)) evs ys = (ys @ evs, None)"
  by (induction evs arbitrary: ys) simp_all


lemma forAwait_invariant:
  assumes "P s" and "\<And>s ev. P s \<Longrightarrow> P (fst (b s ev))"
  shows "P (fst (forAwait b evs s))"
  using assms(1)
proof (induction evs arbitrary: s)
  case Nil
  then show ?case by simp
next
  case (Cons ev evs)
  obtain s' x where b: "b s ev = (s', x)"
    by (cases "b s ev")
  with assms(2) [OF Cons.prems, of ev] have "P s'"
    by simp
  then show ?case
    using Cons.IH [of s'] b by (cases x) simp_all
qed




lemma streamModelResponseLoop_fusion:
  assumes "streamModelResponseLoop e svc input (\<lambda>yielded ev. (yielded @ [ev], None)) retries c
             lastError ys0 w = ((ys, oc), w1)"
  shows "\<exists>rest. ys = ys0 @ rest \<and> (\<forall>err. oc \<noteq> Aborted err) \<and>
     (\<forall>s'. forAwait b rest s = (s', None) \<longrightarrow>
        streamModelResponseLoop e svc input b retries c lastError s w = ((s', oc), w1)) \<and>
     (\<forall>s' err. forAwait b rest s = (s', Some err) \<longrightarrow>
        (\<exists>w'. streamModelResponseLoop e svc input b retries c lastError s w =
                 ((s', Aborted err), w')))"
  using assms
proof (induction "Suc (maxRetries svc) - retries" arbitrary: retries c lastError ys0 s w)
  case 0
  then have gt: "\<not> retries \<le> maxRetries svc"
    by simp
  with "0.prems" have "ys = ys0" "oc = Threw (throwLast lastError)" "w1 = w"
    by (subst (asm) streamModelResponseLoop.simps, simp)+
  moreover have "streamModelResponseLoop e svc input b retries c lastError s w =
      ((s, Threw (throwLast lastError)), w)"
    using gt by (subst streamModelResponseLoop.simps) simp
  ultimately show ?case
    by (intro exI [of _ "[]"]) simp
next
  case (Suc d)
  then have le: "retries \<le> maxRetries svc"
    by simp
  let ?collect = "\<lambda>yielded ev. (yielded @ [ev], None) :: replicate_event list \<times> thrown option"
  let ?w1 = "w\<lparr>calls := calls w @ [c]\<rparr>"
  obtain events failure
    where up: "upstream_stream e c (length (calls w)) (modelId svc) input = (events, failure)"
    by (cases "upstream_stream e c (length (calls w)) (modelId svc) input")
  obtain t x where fa: "forAwait b events s = (t, x)"
    by (cases "forAwait b events s")
  show ?case
  proof (cases "failure \<noteq> None \<and> retries < maxRetries svc")
    case False
    define oc' where "oc' = (case failure of None \<Rightarrow> Returned
                              | Some err \<Rightarrow> Threw (throwLast (Some (asError err))))"
    from False le up Suc.prems have res: "ys = ys0 @ events" "oc = oc'" "w1 = ?w1"
      by (subst (asm) streamModelResponseLoop.simps,
          cases failure; simp add: forAwait_collect Let_def oc'_def)+
    have run: "streamModelResponseLoop e svc input b retries c lastError s w =
        ((t, case x of None \<Rightarrow> oc' | Some err \<Rightarrow> Aborted err), ?w1)"
      using False le up fa
      by (subst streamModelResponseLoop.simps)
         (cases failure; cases x; simp add: Let_def oc'_def)
    have "\<forall>err. oc' \<noteq> Aborted err"
      by (cases failure) (simp_all add: oc'_def)
    with res run fa show ?thesis
      by (intro exI [of _ events]) auto
  next
    case True
    then obtain err where f: "failure = Some err" and lt: "retries < maxRetries svc"
      by auto
    let ?w2 = "w\<lparr>calls := calls w @ [c],
                  cursor := (cursor w + 1) mod length (REPLICATE_API_KEYS e)\<rparr>"
    let ?c2 = "REPLICATE_API_KEYS e ! cursor w"
    have drained: "streamModelResponseLoop e svc input ?collect (retries + 1) ?c2
        (Some (asError err)) (ys0 @ events) ?w2 = ((ys, oc), w1)"
      using Suc.prems le up f lt
      by (subst (asm) streamModelResponseLoop.simps)
         (simp add: forAwait_collect getNextReplicateClient_def)
    have d: "d = Suc (maxRetries svc) - (retries + 1)"
      using Suc.hyps(2) by simp
    from Suc.hyps(1) [OF d drained, of t]
    obtain rest where rest: "ys = (ys0 @ events) @ rest" "\<forall>err. oc \<noteq> Aborted err"
      and ok: "\<And>s'. forAwait b rest t = (s', None) \<Longrightarrow>
        streamModelResponseLoop e svc input b (retries + 1) ?c2 (Some (asError err)) t ?w2 =
          ((s', oc), w1)"
      and ab: "\<And>s' err'. forAwait b rest t = (s', Some err') \<Longrightarrow>
        \<exists>w'. streamModelResponseLoop e svc input b (retries + 1) ?c2 (Some (asError err)) t ?w2 =
          ((s', Aborted err'), w')"
      by blast
    show ?thesis
    proof (cases x)
      case None
      have stepeq: "streamModelResponseLoop e svc input b retries c lastError s w =
          streamModelResponseLoop e svc input b (retries + 1) ?c2 (Some (asError err)) t ?w2"
        using le up fa None f lt
        by (subst streamModelResponseLoop.simps) (simp add: getNextReplicateClient_def)
      have "forAwait b (events @ rest) s = forAwait b rest t"
        using fa None by (simp add: forAwait_append)
      with rest ok ab show ?thesis
        unfolding stepeq by (intro exI [of _ "events @ rest"]) auto
    next
      case (Some thrownByBody)
      have run: "streamModelResponseLoop e svc input b retries c lastError s w =
          ((t, Aborted thrownByBody), ?w1)"
        using le up fa Some
        by (subst streamModelResponseLoop.simps) simp
      have "forAwait b (events @ rest) s = (t, Some thrownByBody)"
        using fa Some by (simp add: forAwait_append)
      with rest run show ?thesis
        by (intro exI [of _ "events @ rest"]) auto
    qed
  qed
qed


lemma streamModelResponse_loop:
  "streamModelResponse e svc input w =
     (case streamModelResponseLoop e svc input (\<lambda>yielded ev. (yielded @ [ev], None)) 0
             (REPLICATE_API_KEYS e ! cursor w) None []
             (w\<lparr>cursor := (cursor w + 1) mod length (REPLICATE_API_KEYS e)\<rparr>) of
        ((yielded, Returned), w') \<Rightarrow> ((yielded, None), w')
      | ((yielded, Threw err), w') \<Rightarrow> ((yielded, Some err), w')
      | ((yielded, Aborted err), w') \<Rightarrow> ((yielded, Some err), w'))"
  by (simp add: streamModelResponse_def streamModelResponseWith_def getNextReplicateClient_def)

lemma streamModelResponse_first_success:
  assumes "upstream_stream e (REPLICATE_API_KEYS e ! cursor w) (length (calls w)) (modelId svc) input
      = (events, None)"
  shows "streamModelResponse e svc input w =
     ((events, None),
      w\<lparr>cursor := (cursor w + 1) mod length (REPLICATE_API_KEYS e),
        calls := calls w @ [REPLICATE_API_KEYS e ! cursor w]\<rparr>)"
  using assms
  by (simp add: streamModelResponse_loop)
     (subst streamModelResponseLoop.simps, simp add: forAwait_collect Let_def)


lemma streamModelResponse_fusion:
  assumes "streamModelResponse e svc input w = ((events, failure), w1)"
  shows "(\<forall>s'. forAwait b events s = (s', None) \<longrightarrow>
            streamModelResponseWith e svc input b s w =
              ((s', case failure of None \<Rightarrow> Returned | Some err \<Rightarrow> Threw err), w1)) \<and>
         (\<forall>s' err. forAwait b events s = (s', Some err) \<longrightarrow>
            (\<exists>w'. streamModelResponseWith e svc input b s w = ((s', Aborted err), w')))"
proof -
  let ?w1 = "w\<lparr>cursor := (cursor w + 1) mod length (REPLICATE_API_KEYS e)\<rparr>"
  let ?c = "REPLICATE_API_KEYS e ! cursor w"
  obtain ys oc w2 where run: "streamModelResponseLoop e svc input
      (\<lambda>yielded ev. (yielded @ [ev], None)) 0 ?c None [] ?w1 = ((ys, oc), w2)"
    by (metis prod.exhaust)
  from streamModelResponseLoop_fusion [OF run, of b s]
  obtain rest where rest: "ys = rest" "\<forall>err. oc \<noteq> Aborted err"
    and ok: "\<And>s'. forAwait b rest s = (s', None) \<Longrightarrow>
      streamModelResponseLoop e svc input b 0 ?c None s ?w1 = ((s', oc), w2)"
    and ab: "\<And>s' err. forAwait b rest s = (s', Some err) \<Longrightarrow>
      \<exists>w'. streamModelResponseLoop e svc input b 0 ?c None s ?w1 = ((s', Aborted err), w')"
    by auto
  from assms run rest(2)
  have "ys = events" "w2 = w1" "oc = (case failure of None \<Rightarrow> Returned | Some err \<Rightarrow> Threw err)"
    by (cases oc; cases failure; simp add: streamModelResponse_loop; fail)+
  with rest(1) ok ab show ?thesis
    by (simp add: streamModelResponseWith_def getNextReplicateClient_def)
qed

lemma demo_stream:
  "streamModelResponse (stream_env evs) (defaultApiService (stream_env evs)) input demo_world
     = ((evs, None), \<lparr>cursor = 1, calls = [''key-a''], clock_reads = 0\<rparr>)"
  by (subst streamModelResponse_first_success [where events = evs])
     (simp_all add: stream_env_def demo_env_def demo_world_def)



section \<open>The streaming encoder\<close>

lemma handleStreamResponse_body:
  assumes "streamModelResponse e (defaultApiService e) input w = ((events, failure), w1)"
    and "tokenCount e (prompt input) = Inr P"
    and "(if system_prompt input = [] then Inr 0 else tokenCount e (system_prompt input)) = Inr S"
  shows "\<exists>w'. handleStreamResponse e w cid model input =
     (Inr \<lparr>status = 200,
           headers = [(''Content-Type'', ''text/event-stream''),
                      (''Cache-Control'', ''no-cache''),
                      (''Connection'', ''keep-alive'')] @ CORS_HEADERS e,
           body = StreamBody
             (fst (fst (encodeStream e cid model (P + S) events failure (clock_reads w))))
             (snd (fst (encodeStream e cid model (P + S) events failure (clock_reads w))))\<rparr>, w')"
proof -
  let ?b = "encodeEvent e cid model (P + S)"
  let ?s0 = "initial_encoder (clock_reads w)"
  obtain s' x where fa: "forAwait ?b events ?s0 = (s', x)"
    by (cases "forAwait ?b events ?s0")
  have sys: "(if truthy (system_prompt input) then tokenCount e (system_prompt input) else Inr 0)
      = Inr S"
    using assms(3) by (simp add: truthy_def split: if_splits)
  show ?thesis
  proof (cases x)
    case None
    with fa streamModelResponse_fusion [OF assms(1), of ?b ?s0]
    have "streamModelResponseWith e (defaultApiService e) input ?b ?s0 w =
        ((s', case failure of None \<Rightarrow> Returned | Some err \<Rightarrow> Threw err), w1)"
      by simp
    with fa None show ?thesis
      by (cases failure)
         (simp_all add: handleStreamResponse_def assms(2) sys encodeStream_def stream_ending_def
            initial_encoder_def)
  next
    case (Some err)
    with fa streamModelResponse_fusion [OF assms(1), of ?b ?s0]
    obtain w' where "streamModelResponseWith e (defaultApiService e) input ?b ?s0 w =
        ((s', Aborted err), w')"
      by auto
    with fa Some show ?thesis
      by (simp add: handleStreamResponse_def assms(2) sys encodeStream_def stream_ending_def
          initial_encoder_def)
  qed
qed


lemma chunks_of_append: "chunks_of (xs @ ys) = chunks_of xs @ chunks_of ys"
  by (induction xs rule: chunks_of.induct) simp_all

lemma upt_shift: "k \<le> k' \<Longrightarrow> map f [k..<k'] = map (\<lambda>i. f (k + i)) [0..<k' - k]"
  by (rule nth_equalityI) simp_all

lemma createSSEChunk_of_response:
  "\<exists>c. createSSEChunk cid model content_arg role_arg finish usage_arg now_ms = SSEData c \<and>
       chunk_of_response cid model c \<and> created c = now_ms div 1000"
  by (cases role_arg; cases content_arg)
     (auto simp: createSSEChunk_def chunk_of_response_def Let_def truthy_def)

lemma chunk_appended:
  assumes "list_all (chunk_of_response cid model) (chunks_of fs)"
    and "k0 \<le> j"
    and "map created (chunks_of fs) = map (\<lambda>i. clock e i div 1000) [k0..<j]"
  shows "list_all (chunk_of_response cid model)
           (chunks_of (fs @ [createSSEChunk cid model ca ra fa ua (clock e j)])) \<and>
         map created (chunks_of (fs @ [createSSEChunk cid model ca ra fa ua (clock e j)])) =
           map (\<lambda>i. clock e i div 1000) [k0..<Suc j]"
  using assms createSSEChunk_of_response [of cid model ca ra fa ua "clock e j"]
  by (auto simp: chunks_of_append)

lemma chunk_and_line: "chunks_of (fs @ [f, SSELine l]) = chunks_of (fs @ [f])"
  by (cases f) (simp_all add: chunks_of_append)

lemma encodeEvent_chunks:
  assumes "list_all (chunk_of_response cid model) (chunks_of (enqueued s)) \<and> k0 \<le> reads s \<and>
      map created (chunks_of (enqueued s)) = map (\<lambda>i. clock e i div 1000) [k0..<reads s]"
  shows "list_all (chunk_of_response cid model)
        (chunks_of (enqueued (fst (encodeEvent e cid model T s ev)))) \<and>
      k0 \<le> reads (fst (encodeEvent e cid model T s ev)) \<and>
      map created (chunks_of (enqueued (fst (encodeEvent e cid model T s ev)))) =
        map (\<lambda>i. clock e i div 1000) [k0..<reads (fst (encodeEvent e cid model T s ev))]"
proof -
  define s1 where "s1 = (if isFirstEvent s
      then s\<lparr>isFirstEvent := False,
             enqueued := enqueued s @
               [createSSEChunk cid model None (Some ''assistant'') None None (clock e (reads s))],
             reads := reads s + 1\<rparr>
      else s)"
  have inv1: "list_all (chunk_of_response cid model) (chunks_of (enqueued s1))"
      "k0 \<le> reads s1"
      "map created (chunks_of (enqueued s1)) = map (\<lambda>i. clock e i div 1000) [k0..<reads s1]"
    using assms chunk_appended [of cid model "enqueued s" k0 "reads s" e None "Some ''assistant''"
        None None]
    by (simp_all add: s1_def)
  note ext = chunk_appended [OF inv1]
  consider (output_event) "event ev = ''output''" "data ev \<noteq> None"
    | (done_throws) err where "\<not> (event ev = ''output'' \<and> data ev \<noteq> None)" "event ev = ''done''"
        "tokenCount e (completionContent s1) = Inl err"
    | (done_event) n where "\<not> (event ev = ''output'' \<and> data ev \<noteq> None)" "event ev = ''done''"
        "tokenCount e (completionContent s1) = Inr n"
    | (other_event) "\<not> (event ev = ''output'' \<and> data ev \<noteq> None)" "event ev \<noteq> ''done''"
    by (cases "tokenCount e (completionContent s1)") blast+
  then show ?thesis
  proof cases
    case output_event
    then have "fst (encodeEvent e cid model T s ev) =
        s1\<lparr>completionContent := completionContent s1 @ the (data ev),
           enqueued := enqueued s1 @
             [createSSEChunk cid model (data ev) None None None (clock e (reads s1))],
           reads := reads s1 + 1\<rparr>"
      by (simp add: encodeEvent_def s1_def Let_def)
    with ext [of "data ev" None None None] inv1(2) show ?thesis
      by simp
  next
    case done_throws
    then have "fst (encodeEvent e cid model T s ev) = s1"
      by (auto simp: encodeEvent_def s1_def Let_def)
    with inv1 show ?thesis
      by simp
  next
    case done_event
    then have "fst (encodeEvent e cid model T s ev) =
        s1\<lparr>enqueued := enqueued s1 @
             [createSSEChunk cid model None None (Some ''stop'')
                (Some \<lparr>prompt_tokens = T, completion_tokens = n, total_tokens = T + n\<rparr>)
                (clock e (reads s1)),
              SSELine ''data: [DONE]\<newline>\<newline>''],
           reads := reads s1 + 1\<rparr>"
      by (auto simp: encodeEvent_def s1_def Let_def)
    with ext [of None None "Some ''stop''"
        "Some \<lparr>prompt_tokens = T, completion_tokens = n, total_tokens = T + n\<rparr>"] inv1(2)
    show ?thesis
      by (simp add: chunk_and_line)
  next
    case other_event
    then have "fst (encodeEvent e cid model T s ev) = s1"
      by (auto simp: encodeEvent_def s1_def Let_def)
    with inv1 show ?thesis
      by simp
  qed
qed

lemma encodeStream_chunks:
  "list_all (chunk_of_response cid model)
     (chunks_of (fst (fst (encodeStream e cid model T events failure k)))) \<and>
   k \<le> snd (encodeStream e cid model T events failure k) \<and>
   map created (chunks_of (fst (fst (encodeStream e cid model T events failure k)))) =
     map (\<lambda>i. clock e i div 1000) [k..<snd (encodeStream e cid model T events failure k)]"
proof -
  let ?P = "\<lambda>s. list_all (chunk_of_response cid model) (chunks_of (enqueued s)) \<and> k \<le> reads s \<and>
      map created (chunks_of (enqueued s)) = map (\<lambda>i. clock e i div 1000) [k..<reads s]"
  have "?P (fst (forAwait (encodeEvent e cid model T) events (initial_encoder k)))"
    by (rule forAwait_invariant [where P = ?P])
       (simp add: initial_encoder_def, rule encodeEvent_chunks)
  then show ?thesis
    by (cases "forAwait (encodeEvent e cid model T) events (initial_encoder k)")
       (simp add: encodeStream_def)
qed

lemma handleStreamResponse_returns:
  assumes "fst (handleStreamResponse e w cid model input) = Inr resp"
  shows "\<exists>P S. tokenCount e (prompt input) = Inr P \<and>
     (if system_prompt input = [] then Inr 0 else tokenCount e (system_prompt input)) = Inr S"
  using assms
  by (auto simp: handleStreamResponse_def truthy_def split: sum.splits if_splits)









lemma encodeEvent_throws:
  assumes "snd (encodeEvent e cid model T s ev) = Some err"
  shows "event ev = ''done'' \<and> (\<exists>t. encode e t = Inl err)"
  using assms
  by (auto simp: encodeEvent_def Let_def tokenCount_def split: if_splits sum.splits)

lemma forAwait_throws:
  assumes "snd (forAwait (encodeEvent e cid model T) events s) = Some err"
  shows "list_ex (\<lambda>ev. event ev = ''done'') events \<and> (\<exists>t. encode e t = Inl err)"
  using assms
proof (induction events arbitrary: s)
  case Nil
  then show ?case by simp
next
  case (Cons ev evs)
  obtain s' x where step: "encodeEvent e cid model T s ev = (s', x)"
    by (cases "encodeEvent e cid model T s ev")
  show ?case
  proof (cases x)
    case None
    with step Cons.prems have "snd (forAwait (encodeEvent e cid model T) evs s') = Some err"
      by simp
    from Cons.IH [OF this] show ?thesis
      by simp
  next
    case (Some err')
    with step Cons.prems have "snd (encodeEvent e cid model T s ev) = Some err"
      by simp
    from encodeEvent_throws [OF this] show ?thesis
      by simp
  qed
qed

lemma encodeStream_end:
  "(snd (fst (encodeStream e cid model T events failure k)) = Closed \<longrightarrow> failure = None) \<and>
   (\<forall>err. snd (fst (encodeStream e cid model T events failure k)) = Errored err \<longrightarrow>
      failure = Some err \<or>
      list_ex (\<lambda>ev. event ev = ''done'') events \<and> (\<exists>t. encode e t = Inl err)) \<and>
   ((\<forall>t. \<not> isl (encode e t)) \<longrightarrow>
      snd (fst (encodeStream e cid model T events failure k)) =
        (case failure of None \<Rightarrow> Closed | Some err \<Rightarrow> Errored err))"
proof -
  obtain s x where fa: "forAwait (encodeEvent e cid model T) events (initial_encoder k) = (s, x)"
    by (cases "forAwait (encodeEvent e cid model T) events (initial_encoder k)")
  have "x = Some err \<Longrightarrow>
      list_ex (\<lambda>ev. event ev = ''done'') events \<and> (\<exists>t. encode e t = Inl err)" for err
    using forAwait_throws [of e cid model T events "initial_encoder k" err] fa by simp
  moreover have "x = None" if "\<forall>t. \<not> isl (encode e t)"
  proof (cases x)
    case (Some err)
    with forAwait_throws [of e cid model T events "initial_encoder k" err] fa that show ?thesis
      by (auto simp: isl_def)
  qed simp
  ultimately show ?thesis
    by (cases x; cases failure) (auto simp: encodeStream_def fa stream_ending_def)
qed


section \<open>The concrete responses\<close>

lemma demo_tokens:
  "tokenCount (stream_env evs) s = Inr (length s)" "tokenCount demo_env s = Inr (length s)"
  by (simp_all add: tokenCount_def stream_env_def demo_env_def)


lemma demo_response:
  "fst (handleStreamResponse (stream_env evs) demo_world cid model demo_input) =
     Inr \<lparr>status = 200,
          headers = [(''Content-Type'', ''text/event-stream''), (''Cache-Control'', ''no-cache''),
                     (''Connection'', ''keep-alive''), (''Access-Control-Allow-Origin'', ''*'')],
          body = StreamBody (fst (fst (encodeStream (stream_env evs) cid model 7 evs None 0)))
                   (snd (fst (encodeStream (stream_env evs) cid model 7 evs None 0)))\<rparr>"
proof -
  have P: "tokenCount (stream_env evs) (prompt demo_input) = Inr 5"
    by (simp add: demo_tokens demo_input_def)
  have S: "(if system_prompt demo_input = [] then Inr 0
            else tokenCount (stream_env evs) (system_prompt demo_input)) = Inr 2"
    by (simp add: demo_tokens demo_input_def)
  from handleStreamResponse_body [OF demo_stream P S, of cid model] show ?thesis
    by (auto simp: demo_world_def stream_env_def demo_env_def)
qed





section \<open>The claims\<close>

subsection \<open>C1: the retry budget\<close>



subsection \<open>C2: one image, the last\<close>

text \<open>
  Claim C2. When the user messages of a conversation carry at least one image URL, the
  conversation is accepted and the model input carries one image: the last URL in message
  order. The earlier ones are dropped, and nothing fails.
\<close>

theorem last_image_forwarded:
  assumes "messages rb = Some msgs" and "conversation_urls msgs \<noteq> []"
  shows "\<exists>input. normalizeRequest rb = Some input \<and>
           image_input input = Some (last (conversation_urls msgs))"
proof -
  from assms(2) obtain m where m: "m \<in> set msgs" "message_urls m \<noteq> []"
    by (auto simp: conversation_urls_def)
  then obtain its where "role m = ''user''" "content m = Items its"
    by (auto simp: message_urls_def split: if_splits message_content.splits)
  then have "m \<in> set (non_system msgs)" "serializable m"
    using m(1) by (auto simp: non_system_def serializable_def)
  then have "transcript (non_system msgs) \<noteq> []"
    by (auto simp: transcript_empty_iff list_all_iff)
  moreover have "image_input (buildModelInput u s (conversation_urls msgs)) =
      Some (last (conversation_urls msgs))" for u s
    using assms(2) by (simp add: buildModelInput_def Let_def last_conv_nth)
  ultimately show ?thesis
    by (simp add: normalize_eq [OF assms(1)])
qed

theorem last_image_forwarded_witness:
  "conversation_urls
     [\<lparr>role = ''user'', content = Items [image_item ''https://a/1.png'', text_item ''first'']\<rparr>,
      \<lparr>role = ''assistant'', content = Text ''seen''\<rparr>,
      \<lparr>role = ''user'', content = Items [text_item ''second'', image_item ''https://a/2.png'']\<rparr>]
     = [''https://a/1.png'', ''https://a/2.png''] \<and>
   (\<exists>input. normalizeRequest (demo_body
       [\<lparr>role = ''user'', content = Items [image_item ''https://a/1.png'', text_item ''first'']\<rparr>,
        \<lparr>role = ''assistant'', content = Text ''seen''\<rparr>,
        \<lparr>role = ''user'', content = Items [text_item ''second'', image_item ''https://a/2.png'']\<rparr>])
       = Some input \<and> image_input input = Some ''https://a/2.png'')"
proof -
  let ?msgs = "[\<lparr>role = ''user'', content = Items [image_item ''https://a/1.png'', text_item ''first'']\<rparr>,
      \<lparr>role = ''assistant'', content = Text ''seen''\<rparr>,
      \<lparr>role = ''user'', content = Items [text_item ''second'', image_item ''https://a/2.png'']\<rparr>]"
  have urls: "conversation_urls ?msgs = [''https://a/1.png'', ''https://a/2.png'']"
    by (simp add: conversation_urls_def message_urls_def item_urls_def image_item_def
        text_item_def)
  have "messages (demo_body ?msgs) = Some ?msgs"
    by (simp add: demo_body_def)
  from last_image_forwarded [OF this] urls show ?thesis
    by simp
qed

subsection \<open>C3: the stream of a short answer\<close>



subsection \<open>C4: the fields of a chunk\<close>

text \<open>
  Claim C4 as stated fails twice. \<open>created\<close> is read from the clock for each chunk: with
  a response that starts 999 ms into a second, the chunks after the first pause carry the
  next second. And an \<open>output\<close> event with the empty string gives a chunk whose delta has
  no \<open>content\<close> key, although the content passed is not null.
\<close>

theorem created_varies_counterexample:
  "map created (chunks_of (response_frames (fst (handleStreamResponse
       (stream_env demo_events)
       demo_world ''chatcmpl-1'' ''proxy-model'' demo_input)))) =
     [1700000000, 1700000000, 1700000001, 1700000001] \<and>
   map (\<lambda>c. map delta (choices c)) (chunks_of (response_frames (fst (handleStreamResponse
       (stream_env [\<lparr>event = ''output'', data = Some []\<rparr>])
       demo_world ''chatcmpl-1'' ''proxy-model'' demo_input)))) =
     [[\<lparr>delta_role = Some ''assistant'', delta_content = None\<rparr>],
      [\<lparr>delta_role = None, delta_content = None\<rparr>]]"
  unfolding response_frames_def demo_response
  by (simp add: encodeStream_def initial_encoder_def stream_ending_def encodeEvent_def
      demo_tokens createSSEChunk_def truthy_def Let_def demo_events_def)
     (simp add: stream_env_def demo_env_def)

text \<open>
  Claim C4, amended. All chunks of one streaming response carry the identifier and the
  model name fixed at its start; the \<open>created\<close> field of the \<open>i\<close>-th chunk is the
  \<open>i\<close>-th clock reading of the response in whole seconds; no delta holds an empty
  string; and the delta \<open>createSSEChunk\<close> writes holds exactly the keys among
  \<open>role\<close> and \<open>content\<close> whose argument is a non-empty string.
\<close>

theorem chunk_fields:
  assumes "fst (handleStreamResponse e w cid model input) = Inr resp"
    and "body resp = StreamBody out ending"
  shows "list_all (chunk_of_response cid model) (chunks_of out) \<and>
         map created (chunks_of out) =
           map (\<lambda>i. clock e (clock_reads w + i) div 1000) [0..<length (chunks_of out)] \<and>
         (\<exists>c. createSSEChunk cid model content_arg role_arg finish usage_arg now_ms = SSEData c \<and>
              chunk_id c = cid \<and> chunk_model c = model \<and> created c = now_ms div 1000 \<and>
              map delta (choices c) =
                [\<lparr>delta_role = (if truthy_opt role_arg then role_arg else None),
                  delta_content = (if truthy_opt content_arg then content_arg else None)\<rparr>])"
proof -
  obtain events failure w1
    where s: "streamModelResponse e (defaultApiService e) input w = ((events, failure), w1)"
    by (cases "streamModelResponse e (defaultApiService e) input w") auto
  from handleStreamResponse_returns [OF assms(1)]
  obtain P S where P: "tokenCount e (prompt input) = Inr P"
    and S: "(if system_prompt input = [] then Inr 0 else tokenCount e (system_prompt input)) = Inr S"
    by blast
  define k' where "k' = snd (encodeStream e cid model (P + S) events failure (clock_reads w))"
  have out: "out = fst (fst (encodeStream e cid model (P + S) events failure (clock_reads w)))"
    using assms handleStreamResponse_body [OF s P S, of cid model] by auto
  note inv = encodeStream_chunks [of cid model e "P + S" events failure "clock_reads w",
      folded out k'_def]
  from inv have all: "list_all (chunk_of_response cid model) (chunks_of out)"
    and le: "clock_reads w \<le> k'"
    and cr: "map created (chunks_of out) = map (\<lambda>i. clock e i div 1000) [clock_reads w..<k']"
    by simp_all
  from cr have len: "length (chunks_of out) = k' - clock_reads w"
    by (metis length_map length_upt)
  have "map (\<lambda>i. clock e i div 1000) [clock_reads w..<k'] =
      map (\<lambda>i. clock e (clock_reads w + i) div 1000) [0..<k' - clock_reads w]"
    by (rule upt_shift [OF le])
  then have "map created (chunks_of out) =
      map (\<lambda>i. clock e (clock_reads w + i) div 1000) [0..<length (chunks_of out)]"
    by (simp only: cr len)
  moreover have "\<exists>c. createSSEChunk cid model content_arg role_arg finish usage_arg now_ms = SSEData c \<and>
      chunk_id c = cid \<and> chunk_model c = model \<and> created c = now_ms div 1000 \<and>
      map delta (choices c) =
        [\<lparr>delta_role = (if truthy_opt role_arg then role_arg else None),
          delta_content = (if truthy_opt content_arg then content_arg else None)\<rparr>]"
    by (simp add: createSSEChunk_def Let_def)
  ultimately show ?thesis
    using all by blast
qed

theorem chunk_fields_witness:
  "(\<exists>resp. fst (handleStreamResponse (stream_env demo_events) demo_world ''chatcmpl-1''
       ''proxy-model'' demo_input) = Inr resp \<and>
     body resp = StreamBody (response_frames (fst (handleStreamResponse (stream_env demo_events)
       demo_world ''chatcmpl-1'' ''proxy-model'' demo_input))) Closed) \<and>
   list_all (chunk_of_response ''chatcmpl-1'' ''proxy-model'')
     (chunks_of (response_frames (fst (handleStreamResponse (stream_env demo_events) demo_world
       ''chatcmpl-1'' ''proxy-model'' demo_input)))) \<and>
   map created (chunks_of (response_frames (fst (handleStreamResponse (stream_env demo_events)
       demo_world ''chatcmpl-1'' ''proxy-model'' demo_input)))) =
     map (\<lambda>i. clock (stream_env demo_events) (clock_reads demo_world + i) div 1000)
       [0..<length (chunks_of (response_frames (fst (handleStreamResponse (stream_env demo_events)
          demo_world ''chatcmpl-1'' ''proxy-model'' demo_input))))] \<and>
   (\<exists>c. createSSEChunk ''chatcmpl-1'' ''proxy-model'' (Some ''Hi'') None None None 1700000000999
          = SSEData c \<and>
        chunk_id c = ''chatcmpl-1'' \<and> chunk_model c = ''proxy-model'' \<and>
        created c = 1700000000999 div 1000 \<and>
        map delta (choices c) =
          [\<lparr>delta_role = (if truthy_opt None then None else None),
            delta_content = (if truthy_opt (Some ''Hi'') then Some ''Hi'' else None)\<rparr>])"
proof -
  let ?r = "fst (handleStreamResponse (stream_env demo_events) demo_world ''chatcmpl-1''
      ''proxy-model'' demo_input)"
  obtain resp where r: "?r = Inr resp"
    by (simp add: demo_response)
  have "snd (fst (encodeStream (stream_env demo_events) ''chatcmpl-1'' ''proxy-model'' 7
      demo_events None 0)) = Closed"
    using encodeStream_end [of "stream_env demo_events" "''chatcmpl-1''" "''proxy-model''" 7
        demo_events None 0]
    by (simp add: stream_env_def demo_env_def)
  with r have b: "body resp = StreamBody (response_frames ?r) Closed"
    by (auto simp: response_frames_def demo_response)
  from chunk_fields [OF r b, of "Some ''Hi''" None None None 1700000000999] r b
  show ?thesis
    by simp
qed

subsection \<open>C5: how a stream ends\<close>




subsection \<open>C6: empty conversations\<close>

text \<open>
  Claim C6 as stated fails: a conversation whose only content is a blank is serialised to
  the line \<open>user:  \<close>, a model input is built and the handler does not answer 400.
\<close>

theorem whitespace_conversation_counterexample:
  "normalizeRequest (demo_body [\<lparr>role = ''user'', content = Text '' ''\<rparr>]) =
     Some (buildModelInput (''user:  \<newline>'' @ ''['' @ antiSelfDialoguePrompt @ '']\<newline>'') [] []) \<and>
   status (fst (handleChatCompletionRequest demo_env demo_world
       (demo_request ''Bearer secret'' [\<lparr>role = ''user'', content = Text '' ''\<rparr>]))) \<noteq> 400"
proof -
  have n: "normalizeRequest (demo_body [\<lparr>role = ''user'', content = Text '' ''\<rparr>]) =
     Some (buildModelInput (''user:  \<newline>'' @ ''['' @ antiSelfDialoguePrompt @ '']\<newline>'') [] [])"
    by (simp add: normalize_eq [of _ "[\<lparr>role = ''user'', content = Text '' ''\<rparr>]"] demo_body_def
        non_system_def transcript_def transcript_line_def serializable_def truthy_def
        conversation_urls_def message_urls_def extractSystemPrompt_def trim_def
        directive_line_def)
  have "status (fst (handleChatCompletionRequest demo_env demo_world
       (demo_request ''Bearer secret'' [\<lparr>role = ''user'', content = Text '' ''\<rparr>]))) \<noteq> 400"
    by (rule accepted_status [OF _ _ n]) (simp_all add: demo_request_def demo_auth)
  with n show ?thesis by simp
qed

text \<open>
  Claim C6, amended. With valid credentials and a parsed body, normalisation fails exactly
  when \<open>messages\<close> is not an array, or no non-system message has both a non-empty role
  and a content that is a non-empty string or an array (so also when the array is empty or
  holds system messages only); the handler then answers 400 with code
  \<open>invalid_messages\<close> and leaves the state alone.
\<close>

theorem empty_conversation_rejected:
  assumes "isValid (validateApiKey e (authorization req))" and "json_body req = Some rb"
  shows "(normalizeRequest rb = None \<longleftrightarrow>
            (case messages rb of None \<Rightarrow> True
             | Some msgs \<Rightarrow> list_all (\<lambda>m. \<not> serializable m) (non_system msgs))) \<and>
         (normalizeRequest rb = None \<longrightarrow>
            handleChatCompletionRequest e w req =
              (\<lparr>status = 400,
                headers = [(''Content-Type'', ''application/json''),
                           (''Access-Control-Allow-Origin'', ''*'')],
                body = ErrorBody
                  \<lparr>err_message = ''Request body must contain a non-empty 'messages' array.'',
                   err_type = ''invalid_request_error'', err_param = None,
                   err_code = ''invalid_messages''\<rparr>\<rparr>, w))"
proof -
  have "normalizeRequest rb = None \<longleftrightarrow>
      (case messages rb of None \<Rightarrow> True
       | Some msgs \<Rightarrow> list_all (\<lambda>m. \<not> serializable m) (non_system msgs))"
  proof (cases "messages rb")
    case None
    then show ?thesis by (simp add: normalize_no_messages)
  next
    case (Some msgs)
    then show ?thesis by (simp add: normalize_eq transcript_empty_iff)
  qed
  moreover have "normalizeRequest rb = None \<Longrightarrow> handleChatCompletionRequest e w req =
      (createErrorResponse ''Request body must contain a non-empty 'messages' array.'' 400
         ''invalid_request_error'' INVALID_MESSAGES, w)"
    by (simp add: handler_normalize [OF assms])
  ultimately show ?thesis
    by (simp add: createErrorResponse_def INVALID_MESSAGES_def)
qed

theorem empty_conversation_rejected_witness:
  "normalizeRequest (demo_body [\<lparr>role = ''system'', content = Text ''be brief''\<rparr>,
                                \<lparr>role = ''user'', content = Text []\<rparr>]) = None \<and>
   handleChatCompletionRequest demo_env demo_world
     (demo_request ''Bearer secret'' [\<lparr>role = ''system'', content = Text ''be brief''\<rparr>,
                                       \<lparr>role = ''user'', content = Text []\<rparr>]) =
     (\<lparr>status = 400,
       headers = [(''Content-Type'', ''application/json''),
                  (''Access-Control-Allow-Origin'', ''*'')],
       body = ErrorBody
         \<lparr>err_message = ''Request body must contain a non-empty 'messages' array.'',
          err_type = ''invalid_request_error'', err_param = None,
          err_code = ''invalid_messages''\<rparr>\<rparr>, demo_world)"
proof -
  let ?msgs = "[\<lparr>role = ''system'', content = Text ''be brief''\<rparr>,
                \<lparr>role = ''user'', content = Text []\<rparr>]"
  have a: "isValid (validateApiKey demo_env (authorization (demo_request ''Bearer secret'' ?msgs)))"
    by (simp add: demo_request_def demo_auth)
  have b: "json_body (demo_request ''Bearer secret'' ?msgs) = Some (demo_body ?msgs)"
    by (simp add: demo_request_def)
  from empty_conversation_rejected [OF a b, of demo_world] show ?thesis
    by (simp add: demo_body_def non_system_def serializable_def truthy_def)
qed

subsection \<open>C7: the anti-echo directive\<close>

text \<open>
  Claim C7. For an accepted conversation the prompt is the transcript of the non-system
  messages, followed by the directive (in square brackets, on a line of its own) exactly when
  the last non-system message has role \<open>user\<close>; and the system prompt sent upstream is the
  directive alone when no system prompt was extracted, and the extracted prompt, a blank
  line and the directive otherwise.
\<close>

theorem anti_echo_directive:
  assumes "messages rb = Some msgs" and "normalizeRequest rb = Some input"
  shows "prompt input =
           transcript (non_system msgs) @
             (if role (last (non_system msgs)) = ''user''
              then ''['' @ antiSelfDialoguePrompt @ '']\<newline>'' else []) \<and>
         system_prompt input =
           (if fst (extractSystemPrompt msgs) = [] then antiSelfDialoguePrompt
            else fst (extractSystemPrompt msgs) @ ''\<newline>\<newline>'' @ antiSelfDialoguePrompt)"
  using assms
  by (auto simp: normalize_eq [OF assms(1)] buildModelInput_def Let_def truthy_def
      directive_line_def split: if_splits)

theorem anti_echo_directive_witness:
  "prompt (the (normalizeRequest (demo_body [\<lparr>role = ''system'', content = Text '' be brief ''\<rparr>,
                                      \<lparr>role = ''user'', content = Text ''hi''\<rparr>]))) =
     ''user: hi\<newline>'' @ ''['' @ antiSelfDialoguePrompt @ '']\<newline>'' \<and>
   system_prompt (the (normalizeRequest (demo_body [\<lparr>role = ''system'', content = Text '' be brief ''\<rparr>,
                                      \<lparr>role = ''user'', content = Text ''hi''\<rparr>]))) =
     ''be brief'' @ ''\<newline>\<newline>'' @ antiSelfDialoguePrompt"
proof -
  have "messages (demo_body [\<lparr>role = ''system'', content = Text '' be brief ''\<rparr>,
                             \<lparr>role = ''user'', content = Text ''hi''\<rparr>]) =
        Some [\<lparr>role = ''system'', content = Text '' be brief ''\<rparr>,
              \<lparr>role = ''user'', content = Text ''hi''\<rparr>]"
    by (simp add: demo_body_def)
  from anti_echo_directive [OF this demo_accepts_system_user] show ?thesis
    by (simp add: demo_accepts_system_user non_system_def transcript_def
        transcript_line_def serializable_def truthy_def extractSystemPrompt_def trim_def
        js_whitespace_def)
qed

subsection \<open>C8: failed authentication\<close>

text \<open>
  Claim C8. A request whose header is a bearer scheme followed by a token other than the
  configured secret is answered 401 with code \<open>invalid_auth_key\<close>; a request without the
  header, or whose header does not start with the scheme, is answered 401 with code
  \<open>missing_auth_header\<close>. Both responses carry the \<open>WWW-Authenticate\<close> header and the
  structured error body, and the state is unchanged.
\<close>

theorem auth_failures:
  "(authorization req = Some (scheme @ token) \<and> toLowerCase scheme = ''bearer '' \<and>
      token \<noteq> AUTH_KEY e \<longrightarrow>
    handleChatCompletionRequest e w req =
      (\<lparr>status = 401,
        headers = [(''Content-Type'', ''application/json''),
                   (''Access-Control-Allow-Origin'', ''*''),
                   (''WWW-Authenticate'', ''Bearer realm='' @ [CHR 0x22] @ ''API Access'' @ [CHR 0x22])],
        body = ErrorBody
          \<lparr>err_message = ''Unauthorized: Invalid API Key provided.'',
           err_type = ''invalid_request_error'', err_param = None,
           err_code = ''invalid_auth_key''\<rparr>\<rparr>, w)) \<and>
   ((authorization req = None \<or>
     (\<exists>h. authorization req = Some h \<and> take 7 (toLowerCase h) \<noteq> ''bearer '')) \<longrightarrow>
    handleChatCompletionRequest e w req =
      (\<lparr>status = 401,
        headers = [(''Content-Type'', ''application/json''),
                   (''Access-Control-Allow-Origin'', ''*''),
                   (''WWW-Authenticate'', ''Bearer realm='' @ [CHR 0x22] @ ''API Access'' @ [CHR 0x22])],
        body = ErrorBody
          \<lparr>err_message = ''Unauthorized: Missing or invalid Authorization header. '' @
                          ''Use 'Bearer <YOUR_API_KEY>' format.'',
           err_type = ''invalid_request_error'', err_param = None,
           err_code = ''missing_auth_header''\<rparr>\<rparr>, w))"
proof (intro conjI impI)
  assume a: "authorization req = Some (scheme @ token) \<and> toLowerCase scheme = ''bearer '' \<and>
      token \<noteq> AUTH_KEY e"
  then have "validateApiKey e (authorization req) =
      \<lparr>isValid = False, providedKey = None,
       auth_response = Some (createAuthErrorResponse
         ''Unauthorized: Invalid API Key provided.'' INVALID_AUTH_KEY)\<rparr>"
    using toLowerCase_scheme [of scheme token]
    by (simp add: validateApiKey_def truthy_def)
  then show "handleChatCompletionRequest e w req =
      (\<lparr>status = 401,
        headers = [(''Content-Type'', ''application/json''),
                   (''Access-Control-Allow-Origin'', ''*''),
                   (''WWW-Authenticate'', ''Bearer realm='' @ [CHR 0x22] @ ''API Access'' @ [CHR 0x22])],
        body = ErrorBody
          \<lparr>err_message = ''Unauthorized: Invalid API Key provided.'',
           err_type = ''invalid_request_error'', err_param = None,
           err_code = ''invalid_auth_key''\<rparr>\<rparr>, w)"
    by (simp add: handleChatCompletionRequest_def createAuthErrorResponse_def
        INVALID_AUTH_KEY_def)
next
  assume "authorization req = None \<or>
     (\<exists>h. authorization req = Some h \<and> take 7 (toLowerCase h) \<noteq> ''bearer '')"
  then have "validateApiKey e (authorization req) =
      \<lparr>isValid = False, providedKey = None,
       auth_response = Some (createAuthErrorResponse
         (''Unauthorized: Missing or invalid Authorization header. '' @
          ''Use 'Bearer <YOUR_API_KEY>' format.'') MISSING_AUTH_HEADER)\<rparr>"
    by (auto simp: validateApiKey_def startsWith_bearer)
  then show "handleChatCompletionRequest e w req =
      (\<lparr>status = 401,
        headers = [(''Content-Type'', ''application/json''),
                   (''Access-Control-Allow-Origin'', ''*''),
                   (''WWW-Authenticate'', ''Bearer realm='' @ [CHR 0x22] @ ''API Access'' @ [CHR 0x22])],
        body = ErrorBody
          \<lparr>err_message = ''Unauthorized: Missing or invalid Authorization header. '' @
                          ''Use 'Bearer <YOUR_API_KEY>' format.'',
           err_type = ''invalid_request_error'', err_param = None,
           err_code = ''missing_auth_header''\<rparr>\<rparr>, w)"
    by (simp add: handleChatCompletionRequest_def createAuthErrorResponse_def
        MISSING_AUTH_HEADER_def)
qed

theorem auth_failures_witness:
  "handleChatCompletionRequest demo_env demo_world
       \<lparr>authorization = Some (''Bearer '' @ ''wrong''), json_body = None\<rparr> =
     (\<lparr>status = 401,
       headers = [(''Content-Type'', ''application/json''),
                  (''Access-Control-Allow-Origin'', ''*''),
                  (''WWW-Authenticate'', ''Bearer realm='' @ [CHR 0x22] @ ''API Access'' @ [CHR 0x22])],
       body = ErrorBody
         \<lparr>err_message = ''Unauthorized: Invalid API Key provided.'',
          err_type = ''invalid_request_error'', err_param = None,
          err_code = ''invalid_auth_key''\<rparr>\<rparr>, demo_world) \<and>
   handleChatCompletionRequest demo_env demo_world \<lparr>authorization = None, json_body = None\<rparr> =
     (\<lparr>status = 401,
       headers = [(''Content-Type'', ''application/json''),
                  (''Access-Control-Allow-Origin'', ''*''),
                  (''WWW-Authenticate'', ''Bearer realm='' @ [CHR 0x22] @ ''API Access'' @ [CHR 0x22])],
       body = ErrorBody
         \<lparr>err_message = ''Unauthorized: Missing or invalid Authorization header. '' @
                         ''Use 'Bearer <YOUR_API_KEY>' format.'',
          err_type = ''invalid_request_error'', err_param = None,
          err_code = ''missing_auth_header''\<rparr>\<rparr>, demo_world)"
proof -
  have lower: "toLowerCase ''Bearer '' = ''bearer ''"
    by (simp add: toLowerCase_def)
  have key: "''wrong'' \<noteq> AUTH_KEY demo_env"
    by (simp add: demo_env_def)
  from auth_failures [of "\<lparr>authorization = Some (''Bearer '' @ ''wrong''), json_body = None\<rparr>"
      "''Bearer ''" "''wrong''" demo_env demo_world]
    auth_failures [of "\<lparr>authorization = None, json_body = None\<rparr>" _ _ demo_env demo_world]
    lower key
  show ?thesis
    by simp
qed

subsection \<open>C9: the constants of the model input\<close>

text \<open>
  Claim C9. Every model input built by normalisation carries \<open>max_tokens = 64000\<close> and
  \<open>max_image_resolution = 0.5\<close>, whatever the request body holds.
\<close>

theorem model_input_constants:
  assumes "normalizeRequest rb = Some input"
  shows "max_tokens input = 64000 \<and> max_image_resolution input = 0.5"
proof (cases "messages rb")
  case None
  with assms show ?thesis by (simp add: normalize_no_messages)
next
  case (Some msgs)
  with assms show ?thesis
    by (auto simp: normalize_eq buildModelInput_def Let_def split: if_splits)
qed

theorem model_input_constants_witness:
  "normalizeRequest (demo_body [\<lparr>role = ''user'', content = Text ''hi''\<rparr>]) \<noteq> None \<and>
   max_tokens (the (normalizeRequest (demo_body [\<lparr>role = ''user'', content = Text ''hi''\<rparr>]))) = 64000 \<and>
   max_image_resolution (the (normalizeRequest (demo_body [\<lparr>role = ''user'', content = Text ''hi''\<rparr>])))
     = 0.5"
  using model_input_constants [OF demo_accepts_hi] by (simp add: demo_accepts_hi)

subsection \<open>C10: the scheme is case-insensitive, the key exact\<close>

text \<open>
  Claim C10. A header whose first seven characters are \<open>bearer \<close> in any mix of cases
  passes the format check, and is valid exactly when the rest of the header equals the
  configured secret; any other rest, such as the secret followed by a blank, is rejected
  with code \<open>invalid_auth_key\<close>.
\<close>

theorem bearer_scheme_exact_key:
  assumes "toLowerCase scheme = ''bearer ''"
  shows "validateApiKey e (Some (scheme @ key)) =
     (if key = AUTH_KEY e
      then \<lparr>isValid = True, providedKey = Some key, auth_response = None\<rparr>
      else \<lparr>isValid = False, providedKey = None,
            auth_response = Some
              \<lparr>status = 401,
               headers = [(''Content-Type'', ''application/json''),
                          (''Access-Control-Allow-Origin'', ''*''),
                          (''WWW-Authenticate'',
                           ''Bearer realm='' @ [CHR 0x22] @ ''API Access'' @ [CHR 0x22])],
               body = ErrorBody
                 \<lparr>err_message = ''Unauthorized: Invalid API Key provided.'',
                  err_type = ''invalid_request_error'', err_param = None,
                  err_code = ''invalid_auth_key''\<rparr>\<rparr>\<rparr>)"
  using toLowerCase_scheme [OF assms, of key]
  by (simp add: validateApiKey_def truthy_def createAuthErrorResponse_def INVALID_AUTH_KEY_def)

theorem bearer_scheme_exact_key_witness:
  "validateApiKey demo_env (Some (''BEARER '' @ ''secret'')) =
     \<lparr>isValid = True, providedKey = Some ''secret'', auth_response = None\<rparr> \<and>
   validateApiKey demo_env (Some (''Bearer '' @ ''secret '')) =
     \<lparr>isValid = False, providedKey = None,
      auth_response = Some
        \<lparr>status = 401,
         headers = [(''Content-Type'', ''application/json''),
                    (''Access-Control-Allow-Origin'', ''*''),
                    (''WWW-Authenticate'',
                     ''Bearer realm='' @ [CHR 0x22] @ ''API Access'' @ [CHR 0x22])],
         body = ErrorBody
           \<lparr>err_message = ''Unauthorized: Invalid API Key provided.'',
            err_type = ''invalid_request_error'', err_param = None,
            err_code = ''invalid_auth_key''\<rparr>\<rparr>\<rparr>"
proof -
  have upper: "toLowerCase ''BEARER '' = ''bearer ''"
    and mixed: "toLowerCase ''Bearer '' = ''bearer ''"
    by (simp_all add: toLowerCase_def)
  from bearer_scheme_exact_key [OF upper, of demo_env "''secret''"]
    bearer_scheme_exact_key [OF mixed, of demo_env "''secret ''"]
  show ?thesis
    by (simp add: demo_env_def)
qed

end
